theory Spec2Isabelle
  imports Complex_Main "HOL-Library.Word"
begin

section \<open>Data model of \<^verbatim>\<open>ebs_autoscale/volume.go\<close>\<close>

text \<open>
  Go's \<^verbatim>\<open>int32\<close> is a 32-bit word: \<open>+\<close> and \<open>-\<close> wrap around, comparisons
  read it as two's complement (\<open>sint\<close>), and \<^verbatim>\<open>int32(len(xs))\<close> is \<open>of_nat\<close>.
  A pointer field of the AWS SDK (\<^verbatim>\<open>*string\<close>, \<^verbatim>\<open>*int32\<close>) is an option; dereferencing
  \<open>None\<close> is Go's nil-pointer panic.
\<close>

type_synonym int32 = "32 word"
type_synonym uint64 = "64 word"

text \<open>
  Errors are values. Each \<^verbatim>\<open>fmt.Errorf\<close>/\<^verbatim>\<open>errors.New\<close> of the source is one
  constructor carrying the arguments of its format string; \<open>External\<close> is an error value
  produced outside the engine (AWS SDK, operating system, filesystem backend) that does
  not wrap \<^verbatim>\<open>os.ErrNotExist\<close>;
  \<open>PathNotExist\<close> is the \<^verbatim>\<open>*PathError\<close> of \<^verbatim>\<open>os.Stat\<close> for which
  \<^verbatim>\<open>errors.Is(err, os.ErrNotExist)\<close> holds; \<open>Joined\<close> is the value of \<^verbatim>\<open>errors.Join\<close>.
\<close>

datatype error =
    External string
  | PathNotExist string
  | CannotGrow
  | NoNextLogicalDevice
  | IsAvailableUnexpected error
  | MaxLogicalSizeGbExceeded int32 int32
  | MaxCreatedVolumesReached int32 nat
  | MaxAttachedVolumesExceeded int32 nat
  | LocalWaitTimeout string
  | Joined "error list"

text \<open>
  A Go function returning \<^verbatim>\<open>(T, error)\<close> that cannot panic has the result type
  \<open>error + T\<close>; one that can dereference a nil pointer has the type \<open>T result\<close>.
\<close>

datatype 'a result = Return 'a | Failed error | Panicked

text \<open>\<^verbatim>\<open>errors.Is(err, os.ErrNotExist)\<close>: the error itself, or one it wraps (\<^verbatim>\<open>%w\<close>, Join).\<close>

fun errors_Is_ErrNotExist :: "error \<Rightarrow> bool" where
  "errors_Is_ErrNotExist (PathNotExist p) = True"
| "errors_Is_ErrNotExist (IsAvailableUnexpected e) = errors_Is_ErrNotExist e"
| "errors_Is_ErrNotExist (Joined es) = list_ex errors_Is_ErrNotExist es"
| "errors_Is_ErrNotExist e = False"

text \<open>
  \<^verbatim>\<open>errors.Join(errs...)\<close>: nil values are discarded, the result is nil when none is left.
\<close>

definition errors_Join :: "error option list \<Rightarrow> error option" where
  "errors_Join errs =
     (case List.map_filter id errs of [] \<Rightarrow> None | e # es \<Rightarrow> Some (Joined (e # es)))"

text \<open>
  The error kinds of the specification (section 7), read off the messages of the source:
  \<open>CapacityExceeded\<close> is one of the three ceilings, \<open>InvalidCapacityConfig\<close> the failure of
  the increment calculation, \<open>NoDeviceAvailable\<close> the exhausted device range.
\<close>

fun CapacityExceeded :: "error \<Rightarrow> bool" where
  "CapacityExceeded (MaxLogicalSizeGbExceeded m s) = True"
| "CapacityExceeded (MaxCreatedVolumesReached m n) = True"
| "CapacityExceeded (MaxAttachedVolumesExceeded m n) = True"
| "CapacityExceeded e = False"

fun InvalidCapacityConfig :: "error \<Rightarrow> bool" where
  "InvalidCapacityConfig CannotGrow = True"
| "InvalidCapacityConfig e = False"

fun NoDeviceAvailable :: "error \<Rightarrow> bool" where
  "NoDeviceAvailable NoNextLogicalDevice = True"
| "NoDeviceAvailable e = False"

text \<open>\<^verbatim>\<open>types.Tag\<close>.\<close>

record Tag =
  Key :: "string option"
  Value :: "string option"

text \<open>
  \<^verbatim>\<open>types.Volume\<close> and \<^verbatim>\<open>ec2.CreateVolumeOutput\<close>: the fields the engine reads
  (\<^verbatim>\<open>VolumeId\<close>, \<^verbatim>\<open>Size\<close>, \<^verbatim>\<open>Tags\<close>) and \<^verbatim>\<open>State\<close>; the other fields are
  copied by \<^verbatim>\<open>createVolumeOutputToVolume\<close> in the same way and never read.
\<close>

record ec2_Volume =
  VolumeId :: "string option"
  Size :: "int32 option"
  State :: string
  Tags :: "Tag list"

record CreateVolumeOutput =
  o_VolumeId :: "string option"
  o_Size :: "int32 option"
  o_State :: string
  o_Tags :: "Tag list"

record Ec2Host =
  InstanceId :: string
  InstanceArn :: string
  AvailabilityZone :: string
  Region :: string
  HostTags :: "Tag list"

record VolumeCfg =
  MountPoint :: string
  cfg_EbsType :: string
  EbsThroughput :: "int32 option"
  EbsIops :: "int32 option"
  cfg_InitialSizeGb :: int32
  MaxSizeGb :: int32
  EbsMaxAttachedVolumes :: int32
  EbsMaxCreatedVolumes :: int32

text \<open>
  The \<^verbatim>\<open>Volume\<close> struct. Its \<^verbatim>\<open>Fs\<close> and \<^verbatim>\<open>ec2Client\<close> handles are the
  environment below.
\<close>

record Volume =
  Host :: Ec2Host
  Id_v :: string
  EbsType :: string
  ThroughPut :: "int32 option"
  Iops :: "int32 option"
  InitialSizeGb :: int32
  MaxLogicalSizeGb :: int32
  MaxAttachedVolumes :: int32
  MaxCreatedVolumes :: int32
  ManagedVolumes :: "ec2_Volume list"

datatype CreateVolumeInput = CreateVolumeInput
  (in_AvailabilityZone: string) (in_VolumeType: string) (in_Size: int32)
  (in_Iops: "int32 option") (in_Throughput: "int32 option") (in_Tags: "Tag list")

text \<open>
  The calls the engine issues on its collaborators, in the order issued. The first seven
  are the remote calls of the EC2 client; the last two are the filesystem backend.
\<close>

datatype call =
    Call_DescribeVolumes string
  | Call_CreateVolume CreateVolumeInput
  | Call_WaitVolumeAvailable string
  | Call_AttachVolume string string string
  | Call_ModifyInstanceAttribute string string string
  | Call_DetachVolume string
  | Call_DeleteVolume string
  | Call_CreateFileSystem string
  | Call_GrowFileSystem string

type_synonym Time = int

text \<open>
  The environment of one operation: what each call site answers. Within one operation
  every call site of the engine is reached at most once (the device allocator probes
  each candidate path once), so a field per call site loses nothing; the readiness poll
  is answered by the list of \<^verbatim>\<open>os.Stat\<close> results its ticks see before the 50s timeout
  fires. \<open>int32_of_PosInf\<close> is what the platform's conversion \<^verbatim>\<open>int32(+Inf)\<close> yields
  (implementation-dependent in Go); \<open>md5_hex\<close> is \<^verbatim>\<open>crypto/md5\<close> with \<^verbatim>\<open>hex.EncodeToString\<close>;
  \<open>time_String\<close> is \<^verbatim>\<open>Time.String\<close>.
\<close>

record env =
  config_LoadDefaultConfig :: "error option"
  ec2_DescribeVolumes :: "string \<Rightarrow> error + ec2_Volume list"
  ec2_CreateVolume :: "CreateVolumeInput \<Rightarrow> error + CreateVolumeOutput"
  ec2_WaitCreated :: "string \<Rightarrow> error option"
  ec2_AttachVolume :: "string \<Rightarrow> string \<Rightarrow> string \<Rightarrow> error option"
  ec2_ModifyInstanceAttribute :: "string \<Rightarrow> string \<Rightarrow> string \<Rightarrow> error option"
  ec2_DetachVolume :: "string \<Rightarrow> error option"
  ec2_WaitDetached :: "string \<Rightarrow> error option"
  ec2_DeleteVolume :: "string \<Rightarrow> error option"
  os_Stat :: "string \<Rightarrow> error option"
  os_Stat_ticks :: "string \<Rightarrow> error option list"
  time_Now :: "unit \<Rightarrow> Time"
  time_String :: "Time \<Rightarrow> string"
  md5_hex :: "string \<Rightarrow> string"
  int32_of_PosInf :: int32
  fs_GetMountPoint :: string
  fs_Stat :: "uint64 \<times> uint64 \<times> uint64 \<times> error option"
  fs_CreateFileSystem :: "string \<Rightarrow> error option"
  fs_GrowFileSystem :: "string \<Rightarrow> error option"

section \<open>The growth increment\<close>

text \<open>
  \<^verbatim>\<open>calculateSizeIncreasePerVolume\<close> returns \<^verbatim>\<open>(int32, error)\<close>; on the error path the
  value is \<open>0\<close>. The quotient is computed in \<^verbatim>\<open>float64\<close>, which holds every \<^verbatim>\<open>int32\<close>
  exactly: with a zero divisor and a positive dividend it is \<^verbatim>\<open>+Inf\<close>, otherwise the
  correctly rounded quotient, whose \<^verbatim>\<open>math.Floor\<close> is the floor of the exact quotient
  (two integers below \<open>2^31\<close> in magnitude are too far from the next integer for the
  rounding to cross it), that is \<open>div\<close> on \<open>int\<close>.
\<close>

definition calculateSizeIncreasePerVolume :: "env \<Rightarrow> Volume \<Rightarrow> int32 \<times> error option" where
  "calculateSizeIncreasePerVolume env v =
     (let difference = MaxLogicalSizeGb v - InitialSizeGb v in
      if sint difference \<le> 0 then (0, Some CannotGrow)
      else
        let slots = MaxCreatedVolumes v - 1 in
        if sint slots = 0 then (int32_of_PosInf env, None)
        else (word_of_int (sint difference div sint slots), None))"

section \<open>The device allocator\<close>

text \<open>\<^verbatim>\<open>isAvailable\<close>, over the \<^verbatim>\<open>os.Stat\<close> it calls.\<close>

definition isAvailable :: "(string \<Rightarrow> error option) \<Rightarrow> string \<Rightarrow> error + bool" where
  "isAvailable stat path =
     (case stat path of
        None \<Rightarrow> Inr False
      | Some err \<Rightarrow>
          if errors_Is_ErrNotExist err then Inr True
          else Inl (IsAvailableUnexpected err))"

text \<open>The loop \<^verbatim>\<open>for i := 'a'; i <= 'z'; i++\<close> of \<^verbatim>\<open>getNextLogicalDevice\<close>.\<close>

fun scanDevices :: "(string \<Rightarrow> error option) \<Rightarrow> string \<Rightarrow> error + string" where
  "scanDevices stat [] = Inl NoNextLogicalDevice"
| "scanDevices stat (i # rest) =
     (let device = ''/dev/xvdb'' @ [i] in
      case isAvailable stat device of
        Inl err \<Rightarrow> Inl err
      | Inr b \<Rightarrow> if b then Inr device else scanDevices stat rest)"

definition candidates :: "string list" where
  "candidates = map (\<lambda>i. ''/dev/xvdb'' @ [i]) ''abcdefghijklmnopqrstuvwxyz''"

definition getNextLogicalDevice :: "env \<Rightarrow> error + string" where
  "getNextLogicalDevice env = scanDevices (os_Stat env) ''abcdefghijklmnopqrstuvwxyz''"

section \<open>Sizes and usage\<close>

text \<open>
  \<^verbatim>\<open>managedVolumeSizeGb\<close>: the loop \<^verbatim>\<open>totalVolumeSize += *mv.Size\<close>, in \<^verbatim>\<open>int32\<close>.
\<close>

fun sumSizes :: "int32 \<Rightarrow> ec2_Volume list \<Rightarrow> int32 result" where
  "sumSizes totalVolumeSize [] = Return totalVolumeSize"
| "sumSizes totalVolumeSize (mv # mvs) =
     (case Size mv of
        None \<Rightarrow> Panicked
      | Some s \<Rightarrow> sumSizes (totalVolumeSize + s) mvs)"

definition managedVolumeSizeGb :: "Volume \<Rightarrow> int32 result" where
  "managedVolumeSizeGb v = sumSizes 0 (ManagedVolumes v)"

text \<open>
  \<^verbatim>\<open>TotalUsagePercent\<close> returns \<^verbatim>\<open>(float32, error)\<close>. The \<^verbatim>\<open>float32\<close> arithmetic
  of the language is a parameter: the conversion from \<^verbatim>\<open>uint64\<close>, division,
  multiplication, and the constants \<open>0\<close> and \<open>100\<close>.
\<close>

record 'f float32_ops =
  f32_zero :: 'f
  f32_hundred :: 'f
  f32_of_uint64 :: "uint64 \<Rightarrow> 'f"
  f32_div :: "'f \<Rightarrow> 'f \<Rightarrow> 'f"
  f32_mul :: "'f \<Rightarrow> 'f \<Rightarrow> 'f"

definition TotalUsagePercent :: "'f float32_ops \<Rightarrow> env \<Rightarrow> 'f \<times> error option" where
  "TotalUsagePercent F env =
     (let usagePercent = f32_zero F in
      case fs_Stat env of (total_b, used_b, free_b, err) \<Rightarrow>
        if err \<noteq> None then (usagePercent, err)
        else if total_b = 0 then (usagePercent, None)
        else (f32_mul F (f32_div F (f32_of_uint64 F used_b) (f32_of_uint64 F total_b))
                (f32_hundred F), None))"

section \<open>The tag builder\<close>

definition strings_HasPrefix :: "string \<Rightarrow> string \<Rightarrow> bool" where
  "strings_HasPrefix s prefix \<longleftrightarrow>
     length prefix \<le> length s \<and> take (length prefix) s = prefix"

text \<open>The loop over \<^verbatim>\<open>v.Host.Tags\<close>, appending to \<^verbatim>\<open>volumeTags\<close>.\<close>

fun appendHostTags :: "Tag list \<Rightarrow> Tag list \<Rightarrow> Tag list result" where
  "appendHostTags volumeTags [] = Return volumeTags"
| "appendHostTags volumeTags (t # ts) =
     (case Key t of
        None \<Rightarrow> Panicked
      | Some k \<Rightarrow>
          if \<not> strings_HasPrefix k ''aws:'' then appendHostTags (volumeTags @ [t]) ts
          else appendHostTags volumeTags ts)"

definition syntheticTags :: "env \<Rightarrow> (unit \<Rightarrow> Time) \<Rightarrow> Volume \<Rightarrow> Tag list" where
  "syntheticTags env now v =
     [\<lparr>Key = Some ''source-instance'', Value = Some (InstanceId (Host v))\<rparr>,
      \<lparr>Key = Some ''source-instance-arn'', Value = Some (InstanceArn (Host v))\<rparr>,
      \<lparr>Key = Some ''ebs-autoscale-id'', Value = Some (Id_v v)\<rparr>,
      \<lparr>Key = Some ''ebs-autoscale-creation-time'', Value = Some (time_String env (now ()))\<rparr>]"

definition buildVolumeTags :: "env \<Rightarrow> (unit \<Rightarrow> Time) \<Rightarrow> Volume \<Rightarrow> Tag list result" where
  "buildVolumeTags env now v = appendHostTags (syntheticTags env now v) (HostTags (Host v))"

section \<open>Discovery\<close>

text \<open>
  The inner loop of \<^verbatim>\<open>NewVolume\<close> over the tags of one volume: \<open>Return True\<close> is the
  \<^verbatim>\<open>break\<close> after the append.
\<close>

fun hasIdTag :: "string \<Rightarrow> Tag list \<Rightarrow> bool result" where
  "hasIdTag ebsAutoscaleId [] = Return False"
| "hasIdTag ebsAutoscaleId (t # ts) =
     (case Key t of
        None \<Rightarrow> Panicked
      | Some k \<Rightarrow>
          if k = ''ebs-autoscale-id'' then
            (case Value t of
               None \<Rightarrow> Panicked
             | Some x \<Rightarrow> if x = ebsAutoscaleId then Return True else hasIdTag ebsAutoscaleId ts)
          else hasIdTag ebsAutoscaleId ts)"

fun findManaged :: "string \<Rightarrow> ec2_Volume list \<Rightarrow> ec2_Volume list \<Rightarrow> ec2_Volume list result" where
  "findManaged ebsAutoscaleId managedVolumes [] = Return managedVolumes"
| "findManaged ebsAutoscaleId managedVolumes (x # xs) =
     (case hasIdTag ebsAutoscaleId (Tags x) of
        Panicked \<Rightarrow> Panicked
      | Failed err \<Rightarrow> Failed err
      | Return b \<Rightarrow>
          findManaged ebsAutoscaleId (if b then managedVolumes @ [x] else managedVolumes) xs)"

definition NewVolume :: "env \<Rightarrow> Ec2Host \<Rightarrow> VolumeCfg \<Rightarrow> call list \<Rightarrow> Volume result \<times> call list" where
  "NewVolume env host cfg tr =
     (case config_LoadDefaultConfig env of
        Some err \<Rightarrow> (Failed err, tr)
      | None \<Rightarrow>
          let tr1 = tr @ [Call_DescribeVolumes (InstanceId host)] in
          case ec2_DescribeVolumes env (InstanceId host) of
            Inl err \<Rightarrow> (Failed err, tr1)
          | Inr attachedVolumes \<Rightarrow>
              let ebsAutoscaleId = md5_hex env (fs_GetMountPoint env) in
              case findManaged ebsAutoscaleId [] attachedVolumes of
                Panicked \<Rightarrow> (Panicked, tr1)
              | Failed err \<Rightarrow> (Failed err, tr1)
              | Return managedVolumes \<Rightarrow>
                  (Return \<lparr>Host = host, Id_v = ebsAutoscaleId, EbsType = cfg_EbsType cfg,
                     ThroughPut = EbsThroughput cfg, Iops = EbsIops cfg,
                     InitialSizeGb = cfg_InitialSizeGb cfg, MaxLogicalSizeGb = MaxSizeGb cfg,
                     MaxAttachedVolumes = EbsMaxAttachedVolumes cfg,
                     MaxCreatedVolumes = EbsMaxCreatedVolumes cfg,
                     ManagedVolumes = managedVolumes\<rparr>, tr1))"

section \<open>Rollback\<close>

definition removeVolume :: "env \<Rightarrow> string \<Rightarrow> call list \<Rightarrow> error option \<times> call list" where
  "removeVolume env volumeId tr =
     (let errList = [];
          tr1 = tr @ [Call_DetachVolume volumeId];
          errList = (case ec2_DetachVolume env volumeId of
                       Some err \<Rightarrow> errList @ [Some err] | None \<Rightarrow> errList);
          tr2 = tr1 @ [Call_WaitVolumeAvailable volumeId];
          errList = (case ec2_WaitDetached env volumeId of
                       Some err \<Rightarrow> errList @ [Some err] | None \<Rightarrow> errList);
          tr3 = tr2 @ [Call_DeleteVolume volumeId];
          errList = (case ec2_DeleteVolume env volumeId of
                       Some err \<Rightarrow> errList @ [Some err] | None \<Rightarrow> errList)
      in (errors_Join errList, tr3))"

text \<open>
  The block repeated at the three call sites of \<^verbatim>\<open>removeVolume\<close>:
  \<^verbatim>\<open>err2 := v.removeVolume(...); if err2 != nil { return nil, errors.Join(err, err2) }; return nil, err\<close>.
\<close>

definition cleanUp :: "env \<Rightarrow> string \<Rightarrow> error \<Rightarrow> call list \<Rightarrow> error \<times> call list" where
  "cleanUp env volumeId err tr =
     (case removeVolume env volumeId tr of
        (Some err2, tr') \<Rightarrow> (Joined [err, err2], tr')
      | (None, tr') \<Rightarrow> (err, tr'))"

section \<open>The create-and-attach protocol\<close>

definition instanceHasCapacity ::
  "env \<Rightarrow> Volume \<Rightarrow> call list \<Rightarrow> (bool \<times> nat \<times> error option) \<times> call list" where
  "instanceHasCapacity env v tr =
     (let tr1 = tr @ [Call_DescribeVolumes (InstanceId (Host v))] in
      case ec2_DescribeVolumes env (InstanceId (Host v)) of
        Inl err \<Rightarrow> ((False, 0, Some err), tr1)
      | Inr volumes \<Rightarrow>
          let count = length volumes in
          if sint (MaxAttachedVolumes v) < sint (of_nat count :: int32)
          then ((False, count, None), tr1)
          else ((True, count, None), tr1))"

text \<open>
  \<^verbatim>\<open>localVolAvailabilityWaiter\<close>: one \<^verbatim>\<open>isAvailable\<close> probe per tick, until the timeout
  fires (the list of tick results is exhausted).
\<close>

fun pollTicks :: "error option list \<Rightarrow> string \<Rightarrow> error option" where
  "pollTicks [] device = Some (LocalWaitTimeout device)"
| "pollTicks (r # rs) device =
     (case isAvailable (\<lambda>p. r) device of
        Inl err \<Rightarrow> Some err
      | Inr b \<Rightarrow> if \<not> b then None else pollTicks rs device)"

definition localVolAvailabilityWaiter :: "env \<Rightarrow> string \<Rightarrow> error option" where
  "localVolAvailabilityWaiter env device = pollTicks (os_Stat_ticks env device) device"

definition volumeTypes :: "string \<rightharpoonup> string" where
  "volumeTypes = map_of [(''io1'', ''io1''), (''io2'', ''io2''), (''gp3'', ''gp3'')]"

definition createVolumeOutputToVolume :: "CreateVolumeOutput \<Rightarrow> ec2_Volume" where
  "createVolumeOutputToVolume o' =
     \<lparr>VolumeId = o_VolumeId o', Size = o_Size o', State = o_State o', Tags = o_Tags o'\<rparr>"

text \<open>
  Lines 264 to 323 of \<^verbatim>\<open>createAndAttachEbsVolume\<close>, after a successful create call: wait,
  attach, append, mark delete-on-termination, wait for the local device.
\<close>

definition attachCreated ::
  "env \<Rightarrow> Volume \<Rightarrow> string \<Rightarrow> CreateVolumeOutput \<Rightarrow> call list \<Rightarrow> string result \<times> Volume \<times> call list" where
  "attachCreated env v device vol tr =
     (case o_VolumeId vol of
        None \<Rightarrow> (Panicked, v, tr)
      | Some volumeId \<Rightarrow>
          let tr1 = tr @ [Call_WaitVolumeAvailable volumeId] in
          case ec2_WaitCreated env volumeId of
            Some err \<Rightarrow>
              (case cleanUp env volumeId err tr1 of (e, tr') \<Rightarrow> (Failed e, v, tr'))
          | None \<Rightarrow>
              let tr2 = tr1 @ [Call_AttachVolume device (InstanceId (Host v)) volumeId] in
              case ec2_AttachVolume env device (InstanceId (Host v)) volumeId of
                Some err \<Rightarrow>
                  (case cleanUp env volumeId err tr2 of (e, tr') \<Rightarrow> (Failed e, v, tr'))
              | None \<Rightarrow>
                  let v' = v\<lparr>ManagedVolumes := ManagedVolumes v @ [createVolumeOutputToVolume vol]\<rparr>;
                      tr3 = tr2 @ [Call_ModifyInstanceAttribute (InstanceId (Host v)) device volumeId] in
                  case ec2_ModifyInstanceAttribute env (InstanceId (Host v)) device volumeId of
                    Some err \<Rightarrow>
                      (case cleanUp env volumeId err tr3 of (e, tr') \<Rightarrow> (Failed e, v', tr'))
                  | None \<Rightarrow>
                      (case localVolAvailabilityWaiter env device of
                         Some err \<Rightarrow> (Failed err, v', tr3)
                       | None \<Rightarrow> (Return device, v', tr3)))"

definition createAndAttachEbsVolume ::
  "env \<Rightarrow> Volume \<Rightarrow> int32 \<Rightarrow> call list \<Rightarrow> string result \<times> Volume \<times> call list" where
  "createAndAttachEbsVolume env v sizeGb tr =
     (case managedVolumeSizeGb v of
        Panicked \<Rightarrow> (Panicked, v, tr)
      | Failed err \<Rightarrow> (Failed err, v, tr)
      | Return volSize \<Rightarrow>
          if sint (MaxLogicalSizeGb v) < sint volSize
          then (Failed (MaxLogicalSizeGbExceeded (MaxLogicalSizeGb v) volSize), v, tr)
          else if (of_nat (length (ManagedVolumes v)) :: int32) = MaxCreatedVolumes v
          then (Failed (MaxCreatedVolumesReached (MaxCreatedVolumes v)
                  (length (ManagedVolumes v))), v, tr)
          else
            case instanceHasCapacity env v tr of
              ((c, totalVolumes, Some err), tr1) \<Rightarrow> (Failed err, v, tr1)
            | ((c, totalVolumes, None), tr1) \<Rightarrow>
                if \<not> c
                then (Failed (MaxAttachedVolumesExceeded (MaxAttachedVolumes v) totalVolumes), v, tr1)
                else
                  case getNextLogicalDevice env of
                    Inl err \<Rightarrow> (Failed err, v, tr1)
                  | Inr device \<Rightarrow>
                      (case volumeTypes (EbsType v) of
                         None \<Rightarrow> (Panicked, v, tr1)
                       | Some volumeType \<Rightarrow>
                           (case buildVolumeTags env (time_Now env) v of
                              Panicked \<Rightarrow> (Panicked, v, tr1)
                            | Failed err \<Rightarrow> (Failed err, v, tr1)
                            | Return tags \<Rightarrow>
                                let input = CreateVolumeInput (AvailabilityZone (Host v))
                                      volumeType sizeGb (Iops v) (ThroughPut v) tags;
                                    tr2 = tr1 @ [Call_CreateVolume input] in
                                case ec2_CreateVolume env input of
                                  Inl err \<Rightarrow> (Failed err, v, tr2)
                                | Inr vol \<Rightarrow> attachCreated env v device vol tr2)))"

section \<open>The public operations\<close>

definition CreateVolume :: "env \<Rightarrow> Volume \<Rightarrow> call list \<Rightarrow> unit result \<times> Volume \<times> call list" where
  "CreateVolume env v tr =
     (case createAndAttachEbsVolume env v (InitialSizeGb v) tr of
        (Panicked, v', tr') \<Rightarrow> (Panicked, v', tr')
      | (Failed err, v', tr') \<Rightarrow> (Failed err, v', tr')
      | (Return device, v', tr') \<Rightarrow>
          let tr'' = tr' @ [Call_CreateFileSystem device] in
          case fs_CreateFileSystem env device of
            Some err \<Rightarrow> (Failed err, v', tr'')
          | None \<Rightarrow> (Return (), v', tr''))"

definition GrowVolume :: "env \<Rightarrow> Volume \<Rightarrow> call list \<Rightarrow> unit result \<times> Volume \<times> call list" where
  "GrowVolume env v tr =
     (case calculateSizeIncreasePerVolume env v of
        (sizeIncreasePerVolume, Some err) \<Rightarrow> (Failed err, v, tr)
      | (sizeIncreasePerVolume, None) \<Rightarrow>
          (case createAndAttachEbsVolume env v sizeIncreasePerVolume tr of
             (Panicked, v', tr') \<Rightarrow> (Panicked, v', tr')
           | (Failed err, v', tr') \<Rightarrow> (Failed err, v', tr')
           | (Return device, v', tr') \<Rightarrow>
               let tr'' = tr' @ [Call_GrowFileSystem device] in
               case fs_GrowFileSystem env device of
                 Some err \<Rightarrow> (Failed err, v', tr'')
               | None \<Rightarrow> (Return (), v', tr'')))"

section \<open>Sample hosts, configurations and environments\<close>

text \<open>
  The host of \<^verbatim>\<open>TestBuildVolumeTags\<close> and the configuration of the first case of
  \<^verbatim>\<open>TestCalculateSizeIncreasePerVolume\<close> (50 GB initial, 200 GB maximum, three volumes).
\<close>

definition sampleHost :: Ec2Host where
  "sampleHost =
     \<lparr>InstanceId = ''bob'', InstanceArn = ''arn:bob'', AvailabilityZone = ''eu-west-1a'',
      Region = ''eu-west-1'',
      HostTags =
        [\<lparr>Key = Some ''HostName'', Value = Some ''Mock Host Name 1''\<rparr>,
         \<lparr>Key = Some ''aws:HostLabel'', Value = Some ''excluded''\<rparr>,
         \<lparr>Key = Some ''HostLabel'', Value = Some ''Mock Host label 1''\<rparr>]\<rparr>"

definition sampleCfg :: VolumeCfg where
  "sampleCfg =
     \<lparr>MountPoint = ''/mnt/ebs-autoscale'', cfg_EbsType = ''gp3'', EbsThroughput = None,
      EbsIops = None, cfg_InitialSizeGb = 50, MaxSizeGb = 200, EbsMaxAttachedVolumes = 16,
      EbsMaxCreatedVolumes = 3\<rparr>"

definition sampleVolume :: Volume where
  "sampleVolume =
     \<lparr>Host = sampleHost, Id_v = ''vol_id'', EbsType = ''gp3'', ThroughPut = None, Iops = None,
      InitialSizeGb = 50, MaxLogicalSizeGb = 200, MaxAttachedVolumes = 16,
      MaxCreatedVolumes = 3, ManagedVolumes = []\<rparr>"

text \<open>
  A provider and host on which every call succeeds: no volume is attached, no device
  node exists until the new volume is attached, the created volume has the requested
  size and tags.
\<close>

definition sampleEnv :: env where
  "sampleEnv =
     \<lparr>config_LoadDefaultConfig = None,
      ec2_DescribeVolumes = (\<lambda>i. Inr []),
      ec2_CreateVolume = (\<lambda>inp. Inr \<lparr>o_VolumeId = Some ''vol-1'', o_Size = Some (in_Size inp),
                                     o_State = ''creating'', o_Tags = in_Tags inp\<rparr>),
      ec2_WaitCreated = (\<lambda>i. None),
      ec2_AttachVolume = (\<lambda>d i x. None),
      ec2_ModifyInstanceAttribute = (\<lambda>i d x. None),
      ec2_DetachVolume = (\<lambda>i. None),
      ec2_WaitDetached = (\<lambda>i. None),
      ec2_DeleteVolume = (\<lambda>i. None),
      os_Stat = (\<lambda>p. Some (PathNotExist p)),
      os_Stat_ticks = (\<lambda>p. [Some (PathNotExist p), None]),
      time_Now = (\<lambda>u. 0),
      time_String = (\<lambda>t. ''2026-01-01 00:00:00 +0000 UTC''),
      md5_hex = (\<lambda>s. ''md5/'' @ s),
      int32_of_PosInf = - 2147483648,
      fs_GetMountPoint = ''/mnt/ebs-autoscale'',
      fs_Stat = (200, 100, 100, None),
      fs_CreateFileSystem = (\<lambda>d. None),
      fs_GrowFileSystem = (\<lambda>d. None)\<rparr>"

text \<open>The device paths \<^verbatim>\<open>/dev/xvdba\<close> to \<^verbatim>\<open>/dev/xvdbe\<close> exist, the others do not.\<close>

definition fiveDevicesEnv :: env where
  "fiveDevicesEnv =
     sampleEnv\<lparr>os_Stat := (\<lambda>p. if p \<in> set (take 5 candidates) then None
                                 else Some (PathNotExist p))\<rparr>"

text \<open>A volume of the given size carrying the identity tag of the sample mount point.\<close>

definition taggedVolume :: "string \<Rightarrow> int32 \<Rightarrow> ec2_Volume" where
  "taggedVolume i s =
     \<lparr>VolumeId = Some i, Size = Some s, State = ''in-use'',
      Tags = [\<lparr>Key = Some ''Name'', Value = Some ''data''\<rparr>,
              \<lparr>Key = Some ''ebs-autoscale-id'', Value = Some ''md5//mnt/ebs-autoscale''\<rparr>]\<rparr>"

text \<open>
  A provider reporting five attached volumes: four of 150 GB carrying the identity tag,
  and the root volume without it.
\<close>

definition crowdedEnv :: env where
  "crowdedEnv =
     sampleEnv\<lparr>ec2_DescribeVolumes := (\<lambda>i. Inr
        [taggedVolume ''vol-a'' 150,
         \<lparr>VolumeId = Some ''vol-root'', Size = Some 8, State = ''in-use'', Tags = []\<rparr>,
         taggedVolume ''vol-b'' 150, taggedVolume ''vol-c'' 150, taggedVolume ''vol-d'' 150])\<rparr>"

text \<open>Exact arithmetic on the reals, which \<^verbatim>\<open>float32\<close> agrees with wherever it is exact.\<close>

definition exactOps :: "real float32_ops" where
  "exactOps =
     \<lparr>f32_zero = 0, f32_hundred = 100, f32_of_uint64 = (\<lambda>w. real (unat w)),
      f32_div = (\<lambda>a b. a / b), f32_mul = (\<lambda>a b. a * b)\<rparr>"

section \<open>Attempts that reach a created volume\<close>

text \<open>
  The attempt passes the pre-check, the capacity probe and the device allocation, builds
  the create request \<open>input\<close>, and the provider answers it with \<open>vol\<close>.
\<close>

definition createSucceeds ::
  "env \<Rightarrow> Volume \<Rightarrow> int32 \<Rightarrow> string \<Rightarrow> CreateVolumeInput \<Rightarrow> CreateVolumeOutput \<Rightarrow> bool" where
  "createSucceeds env v sizeGb device input vol \<longleftrightarrow>
     (case managedVolumeSizeGb v of
        Return volSize \<Rightarrow> \<not> sint (MaxLogicalSizeGb v) < sint volSize
      | Failed err \<Rightarrow> False
      | Panicked \<Rightarrow> False) \<and>
     (of_nat (length (ManagedVolumes v)) :: int32) \<noteq> MaxCreatedVolumes v \<and>
     (case ec2_DescribeVolumes env (InstanceId (Host v)) of
        Inl err \<Rightarrow> False
      | Inr volumes \<Rightarrow> \<not> sint (MaxAttachedVolumes v) < sint (of_nat (length volumes) :: int32)) \<and>
     getNextLogicalDevice env = Inr device \<and>
     (case volumeTypes (EbsType v) of
        None \<Rightarrow> False
      | Some volumeType \<Rightarrow>
          (case buildVolumeTags env (time_Now env) v of
             Return tags \<Rightarrow>
               input = CreateVolumeInput (AvailabilityZone (Host v)) volumeType sizeGb
                         (Iops v) (ThroughPut v) tags
           | Failed err \<Rightarrow> False
           | Panicked \<Rightarrow> False)) \<and>
     ec2_CreateVolume env input = Inr vol"

section \<open>Sample requests, failing providers and states\<close>

text \<open>The create request and the provider's answer on the sample host and volume.\<close>

definition sampleInput :: "int32 \<Rightarrow> CreateVolumeInput" where
  "sampleInput sizeGb =
     CreateVolumeInput ''eu-west-1a'' ''gp3'' sizeGb None None
       [\<lparr>Key = Some ''source-instance'', Value = Some ''bob''\<rparr>,
        \<lparr>Key = Some ''source-instance-arn'', Value = Some ''arn:bob''\<rparr>,
        \<lparr>Key = Some ''ebs-autoscale-id'', Value = Some ''vol_id''\<rparr>,
        \<lparr>Key = Some ''ebs-autoscale-creation-time'',
         Value = Some ''2026-01-01 00:00:00 +0000 UTC''\<rparr>,
        \<lparr>Key = Some ''HostName'', Value = Some ''Mock Host Name 1''\<rparr>,
        \<lparr>Key = Some ''HostLabel'', Value = Some ''Mock Host label 1''\<rparr>]"

definition sampleOutput :: "int32 \<Rightarrow> CreateVolumeOutput" where
  "sampleOutput sizeGb =
     \<lparr>o_VolumeId = Some ''vol-1'', o_Size = Some sizeGb, o_State = ''creating'',
      o_Tags = in_Tags (sampleInput sizeGb)\<rparr>"

text \<open>Providers on which one step fails.\<close>

definition modifyFailsEnv :: env where
  "modifyFailsEnv =
     sampleEnv\<lparr>ec2_ModifyInstanceAttribute := (\<lambda>i d x. Some (External ''modify failed''))\<rparr>"

definition attachFailsEnv :: env where
  "attachFailsEnv =
     sampleEnv\<lparr>ec2_AttachVolume := (\<lambda>d i x. Some (External ''attach failed'')),
               ec2_DetachVolume := (\<lambda>i. Some (External ''detach failed'')),
               ec2_DeleteVolume := (\<lambda>i. Some (External ''delete failed''))\<rparr>"

text \<open>A host with 17 volumes attached, none of them managed.\<close>

definition fullHostEnv :: env where
  "fullHostEnv =
     sampleEnv\<lparr>ec2_DescribeVolumes := (\<lambda>i. Inr (replicate 17
        \<lparr>VolumeId = Some ''vol-x'', Size = Some 8, State = ''in-use'', Tags = []\<rparr>))\<rparr>"

text \<open>
  States of the volume set: two volumes of 100 GB with five allowed (the total equals the
  maximum of 200 GB); one volume of 150 GB with three allowed.
\<close>

definition atMaxVolume :: Volume where
  "atMaxVolume =
     sampleVolume\<lparr>MaxCreatedVolumes := 5,
       ManagedVolumes := [taggedVolume ''vol-a'' 100, taggedVolume ''vol-b'' 100]\<rparr>"

definition largeFirstVolume :: Volume where
  "largeFirstVolume = sampleVolume\<lparr>ManagedVolumes := [taggedVolume ''vol-a'' 150]\<rparr>"

section \<open>Auxiliary facts\<close>

lemma sint_sub_in_range:
  fixes a b :: int32
  assumes "- (2 ^ 31) \<le> sint a - sint b" and "sint a - sint b < 2 ^ 31"
  shows "sint (a - b) = sint a - sint b"
  using assms by (simp add: sint_word_ariths signed_take_bit_int_eq_self)

lemma sint_of_int_in_range:
  assumes "- (2 ^ 31) \<le> k" and "k < 2 ^ 31"
  shows "sint (word_of_int k :: int32) = k"
  using assms by (simp add: sint_sbintrunc' signed_take_bit_int_eq_self)

lemma sint_int32_bounds: "- (2 ^ 31) \<le> sint (w :: int32)" "sint (w :: int32) < 2 ^ 31"
  using sint_ge [of w] sint_lt [of w] by simp_all

lemma errors_Join_pair: "errors_Join [Some err, Some err2] = Some (Joined [err, err2])"
  by (simp add: errors_Join_def List.map_filter_def)

lemma strings_HasPrefix_iff: "strings_HasPrefix s p \<longleftrightarrow> (\<exists>r. s = p @ r)"
  unfolding strings_HasPrefix_def
  by (metis append_eq_conv_conj append_take_drop_id length_append le_add1)

subsection \<open>The increment where the configuration leaves room\<close>

lemma calculateSizeIncreasePerVolume_floor:
  assumes mc: "1 < sint (MaxCreatedVolumes v)"
      and lt: "sint (InitialSizeGb v) < sint (MaxLogicalSizeGb v)"
      and nov: "sint (MaxLogicalSizeGb v) - sint (InitialSizeGb v) < 2 ^ 31"
  shows "\<exists>inc. calculateSizeIncreasePerVolume env v = (inc, None) \<and>
           sint inc = (sint (MaxLogicalSizeGb v) - sint (InitialSizeGb v))
                        div (sint (MaxCreatedVolumes v) - 1)"
proof -
  let ?D = "sint (MaxLogicalSizeGb v) - sint (InitialSizeGb v)"
  let ?S = "sint (MaxCreatedVolumes v) - 1"
  have d: "sint (MaxLogicalSizeGb v - InitialSizeGb v) = ?D"
    using lt nov by (intro sint_sub_in_range) simp_all
  have "sint (1 :: int32) = 1" by simp
  then have s: "sint (MaxCreatedVolumes v - 1) = ?S"
    using mc sint_int32_bounds(2) [of "MaxCreatedVolumes v"]
    by (subst sint_sub_in_range) simp_all
  have "0 \<le> ?D div ?S" using lt mc by (simp add: pos_imp_zdiv_nonneg_iff)
  moreover have "?D div ?S \<le> ?D div 1" using lt mc by (intro zdiv_mono2) simp_all
  ultimately have q: "sint (word_of_int (?D div ?S) :: int32) = ?D div ?S"
    using nov by (intro sint_of_int_in_range) simp_all
  show ?thesis
    using d s q lt mc by (simp add: calculateSizeIncreasePerVolume_def Let_def)
qed

lemma calculateSizeIncreasePerVolume_no_room:
  "sint (MaxLogicalSizeGb v - InitialSizeGb v) \<le> 0 \<Longrightarrow>
     calculateSizeIncreasePerVolume env v = (0, Some CannotGrow)"
  by (simp add: calculateSizeIncreasePerVolume_def)

text \<open>
  Claim C3: the increment is \<open>floor((maxLogicalSizeGb - initialSizeGb) / (maxCreatedVolumes - 1))\<close>
  when \<open>maxCreatedVolumes > 1\<close> and \<open>maxLogicalSizeGb > initialSizeGb\<close>, and the calculation
  fails when \<open>maxCreatedVolumes \<le> 1\<close> or \<open>maxLogicalSizeGb \<le> initialSizeGb\<close>. The source
  checks the difference only. On the input of the case "Only one volume created" of
  \<^verbatim>\<open>TestCalculateSizeIncreasePerVolume\<close> (50, 200, one volume), where the test expects
  \<open>0\<close> and an error, the divisor is zero, the \<^verbatim>\<open>float64\<close> quotient is \<^verbatim>\<open>+Inf\<close>, and the
  function returns its conversion to \<^verbatim>\<open>int32\<close> with a nil error.
\<close>

theorem calculateSizeIncreasePerVolume_single_volume:
  "calculateSizeIncreasePerVolume env
     (v\<lparr>InitialSizeGb := 50, MaxLogicalSizeGb := 200, MaxCreatedVolumes := 1\<rparr>)
   = (int32_of_PosInf env, None)"
  by (simp add: calculateSizeIncreasePerVolume_def)

subsection \<open>Device scan\<close>

lemma scanDevices_Return:
  "scanDevices stat cs = Inr d \<Longrightarrow>
     \<exists>pre post. map (\<lambda>i. ''/dev/xvdb'' @ [i]) cs = pre @ d # post \<and>
        (\<forall>p\<in>set pre. stat p = None) \<and> (\<exists>e. stat d = Some e \<and> errors_Is_ErrNotExist e)"
proof (induction cs)
  case Nil
  then show ?case by simp
next
  case (Cons i cs)
  let ?p = "''/dev/xvdb'' @ [i]"
  show ?case
  proof (cases "stat ?p")
    case None
    with Cons.prems have "scanDevices stat cs = Inr d"
      by (simp add: isAvailable_def)
    from Cons.IH [OF this] obtain pre post where
      h: "map (\<lambda>i. ''/dev/xvdb'' @ [i]) cs = pre @ d # post" "\<forall>p\<in>set pre. stat p = None"
         "\<exists>e. stat d = Some e \<and> errors_Is_ErrNotExist e"
      by blast
    have "map (\<lambda>i. ''/dev/xvdb'' @ [i]) (i # cs) = (?p # pre) @ d # post"
      using h(1) by simp
    moreover have "\<forall>p\<in>set (?p # pre). stat p = None"
      using h(2) None by simp
    ultimately show ?thesis using h(3) by blast
  next
    case (Some e)
    with Cons.prems have "d = ?p \<and> errors_Is_ErrNotExist e"
      by (simp add: isAvailable_def split: if_splits)
    then have "map (\<lambda>i. ''/dev/xvdb'' @ [i]) (i # cs) = [] @ d # map (\<lambda>i. ''/dev/xvdb'' @ [i]) cs"
      and "\<exists>e. stat d = Some e \<and> errors_Is_ErrNotExist e"
      using Some by simp_all
    then show ?thesis by (metis empty_iff list.set(1))
  qed
qed

lemma scanDevices_all_exist:
  "\<forall>p\<in>set (map (\<lambda>i. ''/dev/xvdb'' @ [i]) cs). stat p = None \<Longrightarrow>
     scanDevices stat cs = Inl NoNextLogicalDevice"
  by (induction cs) (simp_all add: isAvailable_def)

lemma scanDevices_find:
  "\<forall>p\<in>set (map (\<lambda>i. ''/dev/xvdb'' @ [i]) cs). \<forall>e. stat p = Some e \<longrightarrow> errors_Is_ErrNotExist e \<Longrightarrow>
     scanDevices stat cs =
       (case find (\<lambda>p. stat p \<noteq> None) (map (\<lambda>i. ''/dev/xvdb'' @ [i]) cs) of
          None \<Rightarrow> Inl NoNextLogicalDevice | Some d \<Rightarrow> Inr d)"
  by (induction cs) (auto simp: isAvailable_def split: option.splits)

text \<open>
  Claim C7: the device allocator scans the 26 candidates \<^verbatim>\<open>/dev/xvdba\<close> to
  \<^verbatim>\<open>/dev/xvdbz\<close> in ascending order. A path it returns has no device node
  (\<^verbatim>\<open>os.Stat\<close> answers not-exist) and every candidate before it has one; when all 26
  candidates exist it fails with \<open>NoDeviceAvailable\<close>; and when \<^verbatim>\<open>os.Stat\<close> answers each
  candidate with success or not-exist, the result is the first candidate without a node.
  (Any other \<^verbatim>\<open>os.Stat\<close> error met before a free candidate ends the scan with that error.)
\<close>

theorem getNextLogicalDevice_first_free:
  "length candidates = 26 \<and> hd candidates = ''/dev/xvdba'' \<and> last candidates = ''/dev/xvdbz'' \<and>
   map (\<lambda>p. (butlast p, of_char (last p) :: nat)) candidates = map (\<lambda>n. (''/dev/xvdb'', n)) [97..<123] \<and>
   (\<forall>d. getNextLogicalDevice env = Inr d \<longrightarrow>
      (\<exists>pre post. candidates = pre @ d # post \<and> (\<forall>p\<in>set pre. os_Stat env p = None) \<and>
         (\<exists>e. os_Stat env d = Some e \<and> errors_Is_ErrNotExist e))) \<and>
   ((\<forall>p\<in>set candidates. os_Stat env p = None) \<longrightarrow>
      getNextLogicalDevice env = Inl NoNextLogicalDevice \<and> NoDeviceAvailable NoNextLogicalDevice) \<and>
   ((\<forall>p\<in>set candidates. \<forall>e. os_Stat env p = Some e \<longrightarrow> errors_Is_ErrNotExist e) \<longrightarrow>
      getNextLogicalDevice env =
        (case find (\<lambda>p. os_Stat env p \<noteq> None) candidates of
           None \<Rightarrow> Inl NoNextLogicalDevice | Some d \<Rightarrow> Inr d))"
proof -
  have range: "length candidates = 26" "hd candidates = ''/dev/xvdba''"
      "last candidates = ''/dev/xvdbz''"
      "map (\<lambda>p. (butlast p, of_char (last p) :: nat)) candidates
         = map (\<lambda>n. (''/dev/xvdb'', n)) [97..<123]"
    by (simp_all add: candidates_def upt_rec)
  have first: "\<forall>d. getNextLogicalDevice env = Inr d \<longrightarrow>
      (\<exists>pre post. candidates = pre @ d # post \<and> (\<forall>p\<in>set pre. os_Stat env p = None) \<and>
         (\<exists>e. os_Stat env d = Some e \<and> errors_Is_ErrNotExist e))"
    unfolding getNextLogicalDevice_def candidates_def by (blast dest: scanDevices_Return)
  have full: "(\<forall>p\<in>set candidates. os_Stat env p = None) \<longrightarrow>
      getNextLogicalDevice env = Inl NoNextLogicalDevice \<and> NoDeviceAvailable NoNextLogicalDevice"
    unfolding getNextLogicalDevice_def candidates_def
    using scanDevices_all_exist [of "''abcdefghijklmnopqrstuvwxyz''" "os_Stat env"] by simp
  have scan: "(\<forall>p\<in>set candidates. \<forall>e. os_Stat env p = Some e \<longrightarrow> errors_Is_ErrNotExist e) \<longrightarrow>
      getNextLogicalDevice env =
        (case find (\<lambda>p. os_Stat env p \<noteq> None) candidates of
           None \<Rightarrow> Inl NoNextLogicalDevice | Some d \<Rightarrow> Inr d)"
    unfolding getNextLogicalDevice_def candidates_def
    using scanDevices_find [of "''abcdefghijklmnopqrstuvwxyz''" "os_Stat env"] by blast
  from range first full scan show ?thesis by blast
qed

theorem getNextLogicalDevice_first_free_witness:
  "getNextLogicalDevice fiveDevicesEnv = Inr ''/dev/xvdbf'' \<and>
   os_Stat fiveDevicesEnv ''/dev/xvdbe'' = None \<and>
   os_Stat fiveDevicesEnv ''/dev/xvdbf'' = Some (PathNotExist ''/dev/xvdbf'')"
proof -
  have ok: "\<forall>p\<in>set candidates. \<forall>e. os_Stat fiveDevicesEnv p = Some e \<longrightarrow> errors_Is_ErrNotExist e"
    by (auto simp: fiveDevicesEnv_def sampleEnv_def split: if_splits)
  have "getNextLogicalDevice fiveDevicesEnv =
        (case find (\<lambda>p. os_Stat fiveDevicesEnv p \<noteq> None) candidates of
           None \<Rightarrow> Inl NoNextLogicalDevice | Some d \<Rightarrow> Inr d)"
    using getNextLogicalDevice_first_free [of fiveDevicesEnv] ok by blast
  then show ?thesis
    by (simp add: fiveDevicesEnv_def sampleEnv_def candidates_def)
qed

subsection \<open>Loops over tags and volumes\<close>

lemma appendHostTags_filter:
  "appendHostTags acc ts =
     (if \<forall>t\<in>set ts. Key t \<noteq> None
      then Return (acc @ filter (\<lambda>t. case Key t of None \<Rightarrow> False
                                    | Some k \<Rightarrow> \<not> strings_HasPrefix k ''aws:'') ts)
      else Panicked)"
  by (induction ts arbitrary: acc) (auto split: option.splits)

lemma hasIdTag_list_ex:
  "\<forall>t\<in>set ts. Key t \<noteq> None \<and> Value t \<noteq> None \<Longrightarrow>
   hasIdTag i ts = Return (list_ex (\<lambda>t. Key t = Some ''ebs-autoscale-id'' \<and> Value t = Some i) ts)"
  by (induction ts) (auto split: option.splits)

lemma findManaged_filter:
  "\<forall>x\<in>set xs. \<forall>t\<in>set (Tags x). Key t \<noteq> None \<and> Value t \<noteq> None \<Longrightarrow>
   findManaged i acc xs =
     Return (acc @ filter (\<lambda>x. list_ex (\<lambda>t. Key t = Some ''ebs-autoscale-id'' \<and> Value t = Some i)
                                 (Tags x)) xs)"
  by (induction xs arbitrary: acc) (simp_all add: hasIdTag_list_ex)

text \<open>
  Claim C8: for every host whose tags carry a key, every id and every injected clock, the
  tag builder returns exactly the four synthetic tags \<open>source-instance\<close> (the host's
  instance id), \<open>source-instance-arn\<close> (the host's ARN), \<open>ebs-autoscale-id\<close> (the id of
  the volume set) and \<open>ebs-autoscale-creation-time\<close> (the injected time rendered as a
  string), followed by the host tags whose key does not have the prefix \<open>aws:\<close>, in their order;
  the host tags with that prefix are left out. The result is a function of the host, the
  id and the clock alone. (A host tag with a nil key makes the builder panic.)
\<close>

theorem buildVolumeTags_exact:
  "buildVolumeTags env now v =
     (if \<forall>t\<in>set (HostTags (Host v)). Key t \<noteq> None
      then Return
        ([\<lparr>Key = Some ''source-instance'', Value = Some (InstanceId (Host v))\<rparr>,
          \<lparr>Key = Some ''source-instance-arn'', Value = Some (InstanceArn (Host v))\<rparr>,
          \<lparr>Key = Some ''ebs-autoscale-id'', Value = Some (Id_v v)\<rparr>,
          \<lparr>Key = Some ''ebs-autoscale-creation-time'', Value = Some (time_String env (now ()))\<rparr>]
         @ filter (\<lambda>t. case Key t of None \<Rightarrow> False | Some k \<Rightarrow> \<not> strings_HasPrefix k ''aws:'')
             (HostTags (Host v)))
      else Panicked) \<and>
   (Host v' = Host v \<and> Id_v v' = Id_v v \<and> now' () = now () \<longrightarrow>
      buildVolumeTags env now' v' = buildVolumeTags env now v)"
proof -
  have "buildVolumeTags env now v =
     (if \<forall>t\<in>set (HostTags (Host v)). Key t \<noteq> None
      then Return (syntheticTags env now v
         @ filter (\<lambda>t. case Key t of None \<Rightarrow> False | Some k \<Rightarrow> \<not> strings_HasPrefix k ''aws:'')
             (HostTags (Host v)))
      else Panicked)"
    by (simp only: buildVolumeTags_def appendHostTags_filter)
  moreover have "Host v' = Host v \<and> Id_v v' = Id_v v \<and> now' () = now () \<longrightarrow>
      buildVolumeTags env now' v' = buildVolumeTags env now v"
    by (simp add: buildVolumeTags_def syntheticTags_def)
  ultimately show ?thesis
    by (simp only: syntheticTags_def) 
qed

theorem buildVolumeTags_exact_witness:
  "buildVolumeTags sampleEnv (\<lambda>u. 7) sampleVolume =
     Return
       [\<lparr>Key = Some ''source-instance'', Value = Some ''bob''\<rparr>,
        \<lparr>Key = Some ''source-instance-arn'', Value = Some ''arn:bob''\<rparr>,
        \<lparr>Key = Some ''ebs-autoscale-id'', Value = Some ''vol_id''\<rparr>,
        \<lparr>Key = Some ''ebs-autoscale-creation-time'', Value = Some (time_String sampleEnv 7)\<rparr>,
        \<lparr>Key = Some ''HostName'', Value = Some ''Mock Host Name 1''\<rparr>,
        \<lparr>Key = Some ''HostLabel'', Value = Some ''Mock Host label 1''\<rparr>]"
  using buildVolumeTags_exact [of sampleEnv "\<lambda>u. 7" sampleVolume sampleVolume "\<lambda>u. 7"]
  by (simp add: sampleVolume_def sampleHost_def strings_HasPrefix_def)

text \<open>
  Claim C9: \<^verbatim>\<open>TotalUsagePercent\<close> returns \<open>used / total * 100\<close>, computed in \<^verbatim>\<open>float32\<close>
  from the values of the filesystem's \<^verbatim>\<open>Stat\<close>; when \<open>total\<close> is \<open>0\<close> it returns \<open>0\<close> and no
  error; when \<^verbatim>\<open>Stat\<close> returns an error it returns that error, with the percentage \<open>0\<close>.
\<close>

theorem TotalUsagePercent_cases:
  "(fs_Stat env = (total_b, used_b, free_b, None) \<and> total_b \<noteq> 0 \<longrightarrow>
      TotalUsagePercent F env =
        (f32_mul F (f32_div F (f32_of_uint64 F used_b) (f32_of_uint64 F total_b)) (f32_hundred F),
         None)) \<and>
   (fs_Stat env = (0, used_b, free_b, None) \<longrightarrow> TotalUsagePercent F env = (f32_zero F, None)) \<and>
   (fs_Stat env = (total_b, used_b, free_b, Some err) \<longrightarrow>
      TotalUsagePercent F env = (f32_zero F, Some err))"
  by (simp add: TotalUsagePercent_def)

theorem TotalUsagePercent_cases_witness:
  "TotalUsagePercent exactOps sampleEnv = (50, None) \<and>
   TotalUsagePercent exactOps (sampleEnv\<lparr>fs_Stat := (200, 200, 0, None)\<rparr>) = (100, None) \<and>
   TotalUsagePercent exactOps (sampleEnv\<lparr>fs_Stat := (200, 0, 200, None)\<rparr>) = (0, None) \<and>
   TotalUsagePercent exactOps (sampleEnv\<lparr>fs_Stat := (0, 0, 0, None)\<rparr>) = (0, None) \<and>
   TotalUsagePercent exactOps (sampleEnv\<lparr>fs_Stat := (200, 0, 200, Some (External ''mock error''))\<rparr>)
     = (0, Some (External ''mock error''))"
proof -
  have a: "fs_Stat sampleEnv = (200, 100, 100, None) \<and> (200 :: uint64) \<noteq> 0"
    by (simp add: sampleEnv_def)
  have b: "fs_Stat (sampleEnv\<lparr>fs_Stat := (200, 200, 0, None)\<rparr>) = (200, 200, 0, None) \<and> (200 :: uint64) \<noteq> 0"
    by simp
  have c: "fs_Stat (sampleEnv\<lparr>fs_Stat := (200, 0, 200, None)\<rparr>) = (200, 0, 200, None) \<and> (200 :: uint64) \<noteq> 0"
    by simp
  have d: "fs_Stat (sampleEnv\<lparr>fs_Stat := (0, 0, 0, None)\<rparr>) = (0, 0, 0, None)"
    by simp
  have e: "fs_Stat (sampleEnv\<lparr>fs_Stat := (200, 0, 200, Some (External ''mock error''))\<rparr>)
     = (200, 0, 200, Some (External ''mock error''))"
    by simp
  show ?thesis
    using TotalUsagePercent_cases [of sampleEnv 200 100 100 exactOps] a
      TotalUsagePercent_cases [of "sampleEnv\<lparr>fs_Stat := (200, 200, 0, None)\<rparr>" 200 200 0 exactOps] b
      TotalUsagePercent_cases [of "sampleEnv\<lparr>fs_Stat := (200, 0, 200, None)\<rparr>" 200 0 200 exactOps] c
      TotalUsagePercent_cases [of "sampleEnv\<lparr>fs_Stat := (0, 0, 0, None)\<rparr>" _ 0 0 exactOps] d
      TotalUsagePercent_cases [of "sampleEnv\<lparr>fs_Stat := (200, 0, 200, Some (External ''mock error''))\<rparr>" 200 0 200 exactOps "External ''mock error''"] e
    by (simp add: exactOps_def)
qed

subsection \<open>Discovery at construction\<close>

lemma crowded_NewVolume:
  "NewVolume crowdedEnv sampleHost sampleCfg [] =
     (Return \<lparr>Host = sampleHost, Id_v = ''md5//mnt/ebs-autoscale'', EbsType = ''gp3'',
        ThroughPut = None, Iops = None, InitialSizeGb = 50, MaxLogicalSizeGb = 200,
        MaxAttachedVolumes = 16, MaxCreatedVolumes = 3,
        ManagedVolumes = [taggedVolume ''vol-a'' 150, taggedVolume ''vol-b'' 150,
                          taggedVolume ''vol-c'' 150, taggedVolume ''vol-d'' 150]\<rparr>,
      [Call_DescribeVolumes ''bob''])"
  by (simp add: NewVolume_def Let_def crowdedEnv_def sampleEnv_def sampleHost_def sampleCfg_def
        taggedVolume_def)

text \<open>
  Claim C10: when the provider answers the describe call of \<^verbatim>\<open>NewVolume\<close> (with tags that
  carry their key and value), \<open>ManagedVolumes\<close> is the list of the attached volumes having a
  tag \<open>ebs-autoscale-id\<close> whose value is the MD5 hex of the mount point, in the order of the
  response, and nothing else is issued but that one describe call. Neither
  \<open>maxCreatedVolumes\<close> nor \<open>maxLogicalSizeGb\<close> is applied: on a provider reporting four tagged
  volumes of 150 GB, with three volumes and 200 GB allowed, the constructed state holds all
  four (600 GB).
\<close>

theorem NewVolume_discovery:
  "(config_LoadDefaultConfig env = None \<and>
    ec2_DescribeVolumes env (InstanceId host) = Inr attached \<and>
    (\<forall>x\<in>set attached. \<forall>t\<in>set (Tags x). Key t \<noteq> None \<and> Value t \<noteq> None) \<longrightarrow>
      (\<exists>v. NewVolume env host cfg tr = (Return v, tr @ [Call_DescribeVolumes (InstanceId host)]) \<and>
           ManagedVolumes v =
             filter (\<lambda>x. list_ex (\<lambda>t. Key t = Some ''ebs-autoscale-id'' \<and>
                                      Value t = Some (md5_hex env (fs_GetMountPoint env))) (Tags x))
               attached \<and>
           Id_v v = md5_hex env (fs_GetMountPoint env) \<and>
           MaxCreatedVolumes v = EbsMaxCreatedVolumes cfg \<and>
           MaxLogicalSizeGb v = MaxSizeGb cfg)) \<and>
   (\<exists>v tr'. NewVolume crowdedEnv sampleHost sampleCfg [] = (Return v, tr') \<and>
        sint (MaxCreatedVolumes v) < int (length (ManagedVolumes v)) \<and>
        (\<exists>s. managedVolumeSizeGb v = Return s \<and> sint (MaxLogicalSizeGb v) < sint s))"
proof -
  have general: "config_LoadDefaultConfig env = None \<and>
    ec2_DescribeVolumes env (InstanceId host) = Inr attached \<and>
    (\<forall>x\<in>set attached. \<forall>t\<in>set (Tags x). Key t \<noteq> None \<and> Value t \<noteq> None) \<longrightarrow>
      (\<exists>v. NewVolume env host cfg tr = (Return v, tr @ [Call_DescribeVolumes (InstanceId host)]) \<and>
           ManagedVolumes v =
             filter (\<lambda>x. list_ex (\<lambda>t. Key t = Some ''ebs-autoscale-id'' \<and>
                                      Value t = Some (md5_hex env (fs_GetMountPoint env))) (Tags x))
               attached \<and>
           Id_v v = md5_hex env (fs_GetMountPoint env) \<and>
           MaxCreatedVolumes v = EbsMaxCreatedVolumes cfg \<and>
           MaxLogicalSizeGb v = MaxSizeGb cfg)"
    by (simp add: NewVolume_def Let_def findManaged_filter)
  have "managedVolumeSizeGb \<lparr>Host = sampleHost, Id_v = ''md5//mnt/ebs-autoscale'', EbsType = ''gp3'',
        ThroughPut = None, Iops = None, InitialSizeGb = 50, MaxLogicalSizeGb = 200,
        MaxAttachedVolumes = 16, MaxCreatedVolumes = 3,
        ManagedVolumes = [taggedVolume ''vol-a'' 150, taggedVolume ''vol-b'' 150,
                          taggedVolume ''vol-c'' 150, taggedVolume ''vol-d'' 150]\<rparr> = Return 600"
    by (simp add: managedVolumeSizeGb_def taggedVolume_def)
  then have particular: "\<exists>v tr'. NewVolume crowdedEnv sampleHost sampleCfg [] = (Return v, tr') \<and>
        sint (MaxCreatedVolumes v) < int (length (ManagedVolumes v)) \<and>
        (\<exists>s. managedVolumeSizeGb v = Return s \<and> sint (MaxLogicalSizeGb v) < sint s)"
    by (simp add: crowded_NewVolume)
  from general particular show ?thesis by blast
qed

theorem NewVolume_discovery_witness:
  "\<exists>v. NewVolume crowdedEnv sampleHost sampleCfg [] = (Return v, [Call_DescribeVolumes ''bob'']) \<and>
       ManagedVolumes v = [taggedVolume ''vol-a'' 150, taggedVolume ''vol-b'' 150,
                           taggedVolume ''vol-c'' 150, taggedVolume ''vol-d'' 150] \<and>
       MaxCreatedVolumes v = 3 \<and> MaxLogicalSizeGb v = 200"
proof -
  let ?attached = "[taggedVolume ''vol-a'' 150,
         \<lparr>VolumeId = Some ''vol-root'', Size = Some 8, State = ''in-use'', Tags = []\<rparr>,
         taggedVolume ''vol-b'' 150, taggedVolume ''vol-c'' 150, taggedVolume ''vol-d'' 150]"
  have h: "config_LoadDefaultConfig crowdedEnv = None \<and>
    ec2_DescribeVolumes crowdedEnv (InstanceId sampleHost) = Inr ?attached \<and>
    (\<forall>x\<in>set ?attached. \<forall>t\<in>set (Tags x). Key t \<noteq> None \<and> Value t \<noteq> None)"
    by (simp add: crowdedEnv_def sampleEnv_def taggedVolume_def)
  from NewVolume_discovery [of crowdedEnv sampleHost ?attached sampleCfg "[]"] h
  obtain v where v:
    "NewVolume crowdedEnv sampleHost sampleCfg [] =
       (Return v, [] @ [Call_DescribeVolumes (InstanceId sampleHost)])"
    "ManagedVolumes v =
       filter (\<lambda>x. list_ex (\<lambda>t. Key t = Some ''ebs-autoscale-id'' \<and>
           Value t = Some (md5_hex crowdedEnv (fs_GetMountPoint crowdedEnv))) (Tags x)) ?attached"
    "MaxCreatedVolumes v = EbsMaxCreatedVolumes sampleCfg"
    "MaxLogicalSizeGb v = MaxSizeGb sampleCfg"
    by blast
  have "filter (\<lambda>x. list_ex (\<lambda>t. Key t = Some ''ebs-autoscale-id'' \<and>
           Value t = Some (md5_hex crowdedEnv (fs_GetMountPoint crowdedEnv))) (Tags x)) ?attached
        = [taggedVolume ''vol-a'' 150, taggedVolume ''vol-b'' 150,
           taggedVolume ''vol-c'' 150, taggedVolume ''vol-d'' 150]"
    by (simp add: crowdedEnv_def sampleEnv_def taggedVolume_def)
  with v show ?thesis
    by (simp add: sampleHost_def sampleCfg_def)
qed

subsection \<open>Rollback and the protocol after the create call\<close>

lemma removeVolume_eq:
  "removeVolume env i tr =
     (errors_Join [ec2_DetachVolume env i, ec2_WaitDetached env i, ec2_DeleteVolume env i],
      tr @ [Call_DetachVolume i, Call_WaitVolumeAvailable i, Call_DeleteVolume i])"
  by (cases "ec2_DetachVolume env i"; cases "ec2_WaitDetached env i"; cases "ec2_DeleteVolume env i")
     (simp_all add: removeVolume_def errors_Join_def List.map_filter_def)

lemma cleanUp_eq:
  "cleanUp env i err tr =
     (case fst (removeVolume env i tr) of None \<Rightarrow> err | Some err2 \<Rightarrow> Joined [err, err2],
      tr @ [Call_DetachVolume i, Call_WaitVolumeAvailable i, Call_DeleteVolume i])"
  by (simp add: cleanUp_def removeVolume_eq split: option.splits)

lemma attachCreated_wait_fails:
  assumes "o_VolumeId vol = Some i" and "ec2_WaitCreated env i = Some err"
  shows "attachCreated env v device vol tr =
     (Failed (case fst (removeVolume env i []) of None \<Rightarrow> err | Some err2 \<Rightarrow> Joined [err, err2]),
      v,
      tr @ [Call_WaitVolumeAvailable i]
         @ [Call_DetachVolume i, Call_WaitVolumeAvailable i, Call_DeleteVolume i])"
  using assms by (simp add: attachCreated_def cleanUp_eq removeVolume_eq)

lemma attachCreated_attach_fails:
  assumes "o_VolumeId vol = Some i" and "ec2_WaitCreated env i = None"
      and "ec2_AttachVolume env device (InstanceId (Host v)) i = Some err"
  shows "attachCreated env v device vol tr =
     (Failed (case fst (removeVolume env i []) of None \<Rightarrow> err | Some err2 \<Rightarrow> Joined [err, err2]),
      v,
      tr @ [Call_WaitVolumeAvailable i, Call_AttachVolume device (InstanceId (Host v)) i]
         @ [Call_DetachVolume i, Call_WaitVolumeAvailable i, Call_DeleteVolume i])"
  using assms by (simp add: attachCreated_def cleanUp_eq removeVolume_eq)

lemma attachCreated_modify_fails:
  assumes "o_VolumeId vol = Some i" and "ec2_WaitCreated env i = None"
      and "ec2_AttachVolume env device (InstanceId (Host v)) i = None"
      and "ec2_ModifyInstanceAttribute env (InstanceId (Host v)) device i = Some err"
  shows "attachCreated env v device vol tr =
     (Failed (case fst (removeVolume env i []) of None \<Rightarrow> err | Some err2 \<Rightarrow> Joined [err, err2]),
      v\<lparr>ManagedVolumes := ManagedVolumes v @ [createVolumeOutputToVolume vol]\<rparr>,
      tr @ [Call_WaitVolumeAvailable i, Call_AttachVolume device (InstanceId (Host v)) i,
            Call_ModifyInstanceAttribute (InstanceId (Host v)) device i]
         @ [Call_DetachVolume i, Call_WaitVolumeAvailable i, Call_DeleteVolume i])"
  using assms by (simp add: attachCreated_def cleanUp_eq removeVolume_eq Let_def)

lemma attachCreated_marked:
  assumes "o_VolumeId vol = Some i" and "ec2_WaitCreated env i = None"
      and "ec2_AttachVolume env device (InstanceId (Host v)) i = None"
      and "ec2_ModifyInstanceAttribute env (InstanceId (Host v)) device i = None"
  shows "attachCreated env v device vol tr =
     (case localVolAvailabilityWaiter env device of Some err \<Rightarrow> Failed err | None \<Rightarrow> Return device,
      v\<lparr>ManagedVolumes := ManagedVolumes v @ [createVolumeOutputToVolume vol]\<rparr>,
      tr @ [Call_WaitVolumeAvailable i, Call_AttachVolume device (InstanceId (Host v)) i,
            Call_ModifyInstanceAttribute (InstanceId (Host v)) device i])"
  using assms by (simp add: attachCreated_def Let_def split: option.splits)

lemma createSucceeds_reaches:
  assumes "createSucceeds env v sizeGb device input vol"
  shows "createAndAttachEbsVolume env v sizeGb tr =
     attachCreated env v device vol
       (tr @ [Call_DescribeVolumes (InstanceId (Host v)), Call_CreateVolume input])"
  using assms
  by (auto simp: createSucceeds_def createAndAttachEbsVolume_def instanceHasCapacity_def Let_def
        split: result.splits sum.splits option.splits)

lemma sample_createSucceeds:
  assumes "sumSizes 0 mvs = Return s" and "sint s \<le> 200"
      and "(of_nat (length mvs) :: int32) \<noteq> mc"
  shows "createSucceeds
     (sampleEnv\<lparr>ec2_AttachVolume := a, ec2_ModifyInstanceAttribute := m,
        ec2_DetachVolume := d, ec2_DeleteVolume := x\<rparr>)
     (sampleVolume\<lparr>MaxCreatedVolumes := mc, ManagedVolumes := mvs\<rparr>)
     sizeGb ''/dev/xvdba'' (sampleInput sizeGb) (sampleOutput sizeGb)"
  using assms
  by (simp add: createSucceeds_def sampleEnv_def sampleVolume_def sampleHost_def sampleInput_def
        sampleOutput_def managedVolumeSizeGb_def getNextLogicalDevice_def isAvailable_def
        volumeTypes_def buildVolumeTags_def syntheticTags_def strings_HasPrefix_def)

lemma sampleEnv_updates:
  "sampleEnv\<lparr>ec2_AttachVolume := ec2_AttachVolume sampleEnv,
      ec2_ModifyInstanceAttribute := ec2_ModifyInstanceAttribute sampleEnv,
      ec2_DetachVolume := ec2_DetachVolume sampleEnv,
      ec2_DeleteVolume := ec2_DeleteVolume sampleEnv\<rparr> = sampleEnv"
  "sampleVolume\<lparr>MaxCreatedVolumes := 3, ManagedVolumes := []\<rparr> = sampleVolume"
  by (simp_all add: sampleVolume_def)

text \<open>An attempt on the sample provider, where every call succeeds.\<close>

lemma sample_attempt:
  assumes "sumSizes 0 mvs = Return s" and "sint s \<le> 200"
      and "(of_nat (length mvs) :: int32) \<noteq> mc"
  shows "createAndAttachEbsVolume sampleEnv
           (sampleVolume\<lparr>MaxCreatedVolumes := mc, ManagedVolumes := mvs\<rparr>) sizeGb [] =
     (Return ''/dev/xvdba'',
      sampleVolume\<lparr>MaxCreatedVolumes := mc,
        ManagedVolumes := mvs @ [createVolumeOutputToVolume (sampleOutput sizeGb)]\<rparr>,
      [Call_DescribeVolumes ''bob'', Call_CreateVolume (sampleInput sizeGb),
       Call_WaitVolumeAvailable ''vol-1'', Call_AttachVolume ''/dev/xvdba'' ''bob'' ''vol-1'',
       Call_ModifyInstanceAttribute ''bob'' ''/dev/xvdba'' ''vol-1''])"
proof -
  let ?v = "sampleVolume\<lparr>MaxCreatedVolumes := mc, ManagedVolumes := mvs\<rparr>"
  have "createSucceeds sampleEnv ?v sizeGb ''/dev/xvdba'' (sampleInput sizeGb) (sampleOutput sizeGb)"
    using sample_createSucceeds [OF assms, where a = "ec2_AttachVolume sampleEnv"
        and m = "ec2_ModifyInstanceAttribute sampleEnv"
        and d = "ec2_DetachVolume sampleEnv" and x = "ec2_DeleteVolume sampleEnv"]
    by (simp only: sampleEnv_updates)
  then have "createAndAttachEbsVolume sampleEnv ?v sizeGb [] =
      attachCreated sampleEnv ?v ''/dev/xvdba'' (sampleOutput sizeGb)
        ([] @ [Call_DescribeVolumes (InstanceId (Host ?v)), Call_CreateVolume (sampleInput sizeGb)])"
    by (rule createSucceeds_reaches)
  moreover have "attachCreated sampleEnv ?v ''/dev/xvdba'' (sampleOutput sizeGb)
        ([] @ [Call_DescribeVolumes (InstanceId (Host ?v)), Call_CreateVolume (sampleInput sizeGb)]) =
     (case localVolAvailabilityWaiter sampleEnv ''/dev/xvdba'' of
        Some err \<Rightarrow> Failed err | None \<Rightarrow> Return ''/dev/xvdba'',
      ?v\<lparr>ManagedVolumes := ManagedVolumes ?v @ [createVolumeOutputToVolume (sampleOutput sizeGb)]\<rparr>,
      ([] @ [Call_DescribeVolumes (InstanceId (Host ?v)), Call_CreateVolume (sampleInput sizeGb)])
        @ [Call_WaitVolumeAvailable ''vol-1'',
           Call_AttachVolume ''/dev/xvdba'' (InstanceId (Host ?v)) ''vol-1'',
           Call_ModifyInstanceAttribute (InstanceId (Host ?v)) ''/dev/xvdba'' ''vol-1''])"
    by (rule attachCreated_marked) (simp_all add: sampleOutput_def sampleEnv_def)
  moreover have "localVolAvailabilityWaiter sampleEnv ''/dev/xvdba'' = None"
    by (simp add: localVolAvailabilityWaiter_def sampleEnv_def isAvailable_def)
  moreover have "InstanceId (Host ?v) = ''bob''"
    by (simp add: sampleVolume_def sampleHost_def)
  ultimately show ?thesis by simp
qed

lemma attachCreated_trace:
  "\<exists>rest. snd (snd (attachCreated env v device vol tr)) = tr @ rest \<and>
          (\<forall>inp. Call_CreateVolume inp \<notin> set rest)"
  by (auto simp: attachCreated_def cleanUp_eq Let_def split: option.splits)

text \<open>The four ways an attempt can go, by how far it gets.\<close>

lemma createAndAttach_cases:
  "(\<exists>r. createAndAttachEbsVolume env v sizeGb tr = (r, v, tr) \<and>
        (\<forall>volSize. managedVolumeSizeGb v = Return volSize \<longrightarrow>
           sint (MaxLogicalSizeGb v) < sint volSize \<or>
           (of_nat (length (ManagedVolumes v)) :: int32) = MaxCreatedVolumes v)) \<or>
   (\<exists>r. createAndAttachEbsVolume env v sizeGb tr =
          (r, v, tr @ [Call_DescribeVolumes (InstanceId (Host v))])) \<or>
   (\<exists>err input volumes.
       ec2_DescribeVolumes env (InstanceId (Host v)) = Inr volumes \<and>
       \<not> sint (MaxAttachedVolumes v) < sint (of_nat (length volumes) :: int32) \<and>
       in_Size input = sizeGb \<and>
       createAndAttachEbsVolume env v sizeGb tr =
          (Failed err, v, tr @ [Call_DescribeVolumes (InstanceId (Host v)), Call_CreateVolume input])) \<or>
   (\<exists>device input vol volumes.
       ec2_DescribeVolumes env (InstanceId (Host v)) = Inr volumes \<and>
       \<not> sint (MaxAttachedVolumes v) < sint (of_nat (length volumes) :: int32) \<and>
       in_Size input = sizeGb \<and> ec2_CreateVolume env input = Inr vol \<and>
       createAndAttachEbsVolume env v sizeGb tr =
          attachCreated env v device vol
            (tr @ [Call_DescribeVolumes (InstanceId (Host v)), Call_CreateVolume input]))"
  apply (simp add: createAndAttachEbsVolume_def instanceHasCapacity_def Let_def
        split: result.splits sum.splits option.splits)
  apply (intro allI impI conjI)
  apply (metis CreateVolumeInput.sel(3))+
  done

lemma createAndAttach_create_issued:
  assumes "Call_CreateVolume input \<in> set (snd (snd (createAndAttachEbsVolume env v sizeGb [])))"
  shows "\<exists>volumes rest. ec2_DescribeVolumes env (InstanceId (Host v)) = Inr volumes \<and>
           \<not> sint (MaxAttachedVolumes v) < sint (of_nat (length volumes) :: int32) \<and>
           snd (snd (createAndAttachEbsVolume env v sizeGb [])) =
             Call_DescribeVolumes (InstanceId (Host v)) # Call_CreateVolume input # rest"
proof -
  let ?run = "createAndAttachEbsVolume env v sizeGb []"
  let ?d = "Call_DescribeVolumes (InstanceId (Host v))"
  consider (none) r where "?run = (r, v, [])"
    | (probe) r where "?run = (r, v, [] @ [?d])"
    | (refused) err inp volumes where
        "ec2_DescribeVolumes env (InstanceId (Host v)) = Inr volumes"
        "\<not> sint (MaxAttachedVolumes v) < sint (of_nat (length volumes) :: int32)"
        "?run = (Failed err, v, [] @ [?d, Call_CreateVolume inp])"
    | (created) device inp vol volumes where
        "ec2_DescribeVolumes env (InstanceId (Host v)) = Inr volumes"
        "\<not> sint (MaxAttachedVolumes v) < sint (of_nat (length volumes) :: int32)"
        "?run = attachCreated env v device vol ([] @ [?d, Call_CreateVolume inp])"
    using createAndAttach_cases [of env v sizeGb "[]"] by auto
  then show ?thesis
  proof cases
    case none
    with assms show ?thesis by simp
  next
    case probe
    with assms show ?thesis by simp
  next
    case refused
    with assms show ?thesis by auto
  next
    case created
    obtain rest where rest:
      "snd (snd (attachCreated env v device vol ([] @ [?d, Call_CreateVolume inp])))
         = ([] @ [?d, Call_CreateVolume inp]) @ rest"
      "\<forall>inp'. Call_CreateVolume inp' \<notin> set rest"
      using attachCreated_trace by blast
    with assms created(3) have "input = inp" by auto
    with created rest show ?thesis by simp
  qed
qed

text \<open>
  Claim C5: \<^verbatim>\<open>removeVolume\<close> issues detach, wait-until-available and delete, all three and in
  this order, whatever each of them answers; its result is \<^verbatim>\<open>errors.Join\<close> of the failures
  among the three, in that order (nil when none failed). At the three call sites of the
  protocol (a failed availability wait, a failed attach, a failed delete-on-termination
  mark) the attempt ends with the rollback calls and returns the triggering error itself
  when the rollback returned nil, and otherwise the join of the triggering error and the
  rollback error, in this order.
\<close>

theorem removeVolume_joins_all_failures:
  "snd (removeVolume env i tr) =
     tr @ [Call_DetachVolume i, Call_WaitVolumeAvailable i, Call_DeleteVolume i] \<and>
   fst (removeVolume env i tr) =
     errors_Join [ec2_DetachVolume env i, ec2_WaitDetached env i, ec2_DeleteVolume env i] \<and>
   (createSucceeds env v sizeGb device input vol \<and> o_VolumeId vol = Some i \<and>
    (ec2_WaitCreated env i = Some err \<or>
     ec2_WaitCreated env i = None \<and>
       ec2_AttachVolume env device (InstanceId (Host v)) i = Some err \<or>
     ec2_WaitCreated env i = None \<and>
       ec2_AttachVolume env device (InstanceId (Host v)) i = None \<and>
       ec2_ModifyInstanceAttribute env (InstanceId (Host v)) device i = Some err) \<longrightarrow>
      fst (createAndAttachEbsVolume env v sizeGb tr) =
        Failed (case fst (removeVolume env i []) of
                  None \<Rightarrow> err
                | Some err2 \<Rightarrow> Joined [err, err2]) \<and>
      (\<exists>pre. snd (snd (createAndAttachEbsVolume env v sizeGb tr)) =
         pre @ [Call_DetachVolume i, Call_WaitVolumeAvailable i, Call_DeleteVolume i]))"
proof (intro conjI impI)
  show "snd (removeVolume env i tr) =
     tr @ [Call_DetachVolume i, Call_WaitVolumeAvailable i, Call_DeleteVolume i]"
    by (simp add: removeVolume_eq)
  show "fst (removeVolume env i tr) =
     errors_Join [ec2_DetachVolume env i, ec2_WaitDetached env i, ec2_DeleteVolume env i]"
    by (simp add: removeVolume_eq)
next
  assume h: "createSucceeds env v sizeGb device input vol \<and> o_VolumeId vol = Some i \<and>
    (ec2_WaitCreated env i = Some err \<or>
     ec2_WaitCreated env i = None \<and>
       ec2_AttachVolume env device (InstanceId (Host v)) i = Some err \<or>
     ec2_WaitCreated env i = None \<and>
       ec2_AttachVolume env device (InstanceId (Host v)) i = None \<and>
       ec2_ModifyInstanceAttribute env (InstanceId (Host v)) device i = Some err)"
  let ?tr = "tr @ [Call_DescribeVolumes (InstanceId (Host v)), Call_CreateVolume input]"
  from h have run: "createAndAttachEbsVolume env v sizeGb tr = attachCreated env v device vol ?tr"
    by (simp add: createSucceeds_reaches)
  have "fst (attachCreated env v device vol ?tr) =
        Failed (case fst (removeVolume env i []) of
                  None \<Rightarrow> err
                | Some err2 \<Rightarrow> Joined [err, err2]) \<and>
      (\<exists>pre. snd (snd (attachCreated env v device vol ?tr)) =
         pre @ [Call_DetachVolume i, Call_WaitVolumeAvailable i, Call_DeleteVolume i])"
    using h
    by (elim conjE disjE)
       (simp_all add: attachCreated_wait_fails attachCreated_attach_fails
          attachCreated_modify_fails)
  with run show "fst (createAndAttachEbsVolume env v sizeGb tr) =
        Failed (case fst (removeVolume env i []) of
                  None \<Rightarrow> err
                | Some err2 \<Rightarrow> Joined [err, err2])"
    and "\<exists>pre. snd (snd (createAndAttachEbsVolume env v sizeGb tr)) =
         pre @ [Call_DetachVolume i, Call_WaitVolumeAvailable i, Call_DeleteVolume i]"
    by simp_all
qed

theorem removeVolume_joins_all_failures_witness:
  "fst (createAndAttachEbsVolume attachFailsEnv sampleVolume 50 []) =
     Failed (Joined [External ''attach failed'',
                     Joined [External ''detach failed'', External ''delete failed'']])"
proof -
  have "createSucceeds attachFailsEnv sampleVolume 50 ''/dev/xvdba'' (sampleInput 50) (sampleOutput 50)"
    unfolding attachFailsEnv_def
    using sample_createSucceeds [where mvs = "[]" and s = 0 and mc = 3 and sizeGb = 50
        and a = "\<lambda>d i x. Some (External ''attach failed'')"
        and m = "ec2_ModifyInstanceAttribute sampleEnv"
        and d = "\<lambda>i. Some (External ''detach failed'')"
        and x = "\<lambda>i. Some (External ''delete failed'')"]
    by (simp add: sampleEnv_updates)
  moreover have "o_VolumeId (sampleOutput 50) = Some ''vol-1''"
    by (simp add: sampleOutput_def)
  moreover have "ec2_WaitCreated attachFailsEnv ''vol-1'' = None \<and>
      ec2_AttachVolume attachFailsEnv ''/dev/xvdba'' (InstanceId (Host sampleVolume)) ''vol-1''
        = Some (External ''attach failed'')"
    by (simp add: attachFailsEnv_def sampleEnv_def)
  ultimately have "fst (createAndAttachEbsVolume attachFailsEnv sampleVolume 50 []) =
        Failed (case fst (removeVolume attachFailsEnv ''vol-1'' []) of
                  None \<Rightarrow> External ''attach failed''
                | Some err2 \<Rightarrow> Joined [External ''attach failed'', err2])"
    using removeVolume_joins_all_failures [of attachFailsEnv "''vol-1''" "[]" sampleVolume 50
        "''/dev/xvdba''" "sampleInput 50" "sampleOutput 50" "External ''attach failed''"]
    by blast
  moreover have "fst (removeVolume attachFailsEnv ''vol-1'' []) =
      Some (Joined [External ''detach failed'', External ''delete failed''])"
    using removeVolume_joins_all_failures [of attachFailsEnv "''vol-1''" "[]"]
    by (simp add: attachFailsEnv_def sampleEnv_def errors_Join_def List.map_filter_def)
  ultimately show ?thesis by simp
qed

text \<open>
  Claim C1: a record is appended to \<open>ManagedVolumes\<close> only after create, available-wait,
  attach and delete-on-termination mark have all succeeded, and a failure of any of these
  four leaves \<open>ManagedVolumes\<close> unchanged. The source appends after the attach and before
  the mark: when the mark fails on an otherwise healthy provider, the attempt returns the
  error, the rollback detaches and deletes the volume, and its record stays in
  \<open>ManagedVolumes\<close>.
\<close>

theorem createAndAttachEbsVolume_failed_mark_keeps_record:
  "createAndAttachEbsVolume modifyFailsEnv sampleVolume 50 [] =
     (Failed (External ''modify failed''),
      sampleVolume\<lparr>ManagedVolumes := [createVolumeOutputToVolume (sampleOutput 50)]\<rparr>,
      [Call_DescribeVolumes ''bob'', Call_CreateVolume (sampleInput 50),
       Call_WaitVolumeAvailable ''vol-1'', Call_AttachVolume ''/dev/xvdba'' ''bob'' ''vol-1'',
       Call_ModifyInstanceAttribute ''bob'' ''/dev/xvdba'' ''vol-1'',
       Call_DetachVolume ''vol-1'', Call_WaitVolumeAvailable ''vol-1'',
       Call_DeleteVolume ''vol-1''])"
proof -
  have "createSucceeds modifyFailsEnv sampleVolume 50 ''/dev/xvdba'' (sampleInput 50) (sampleOutput 50)"
    unfolding modifyFailsEnv_def
    using sample_createSucceeds [where mvs = "[]" and s = 0 and mc = 3 and sizeGb = 50
        and a = "ec2_AttachVolume sampleEnv"
        and m = "\<lambda>i d x. Some (External ''modify failed'')"
        and d = "ec2_DetachVolume sampleEnv" and x = "ec2_DeleteVolume sampleEnv"]
    by (simp add: sampleEnv_updates)
  then have "createAndAttachEbsVolume modifyFailsEnv sampleVolume 50 [] =
      attachCreated modifyFailsEnv sampleVolume ''/dev/xvdba'' (sampleOutput 50)
        ([] @ [Call_DescribeVolumes (InstanceId (Host sampleVolume)),
               Call_CreateVolume (sampleInput 50)])"
    by (rule createSucceeds_reaches)
  moreover have "attachCreated modifyFailsEnv sampleVolume ''/dev/xvdba'' (sampleOutput 50)
        ([] @ [Call_DescribeVolumes (InstanceId (Host sampleVolume)),
               Call_CreateVolume (sampleInput 50)]) =
     (Failed (case fst (removeVolume modifyFailsEnv ''vol-1'' []) of
                None \<Rightarrow> External ''modify failed''
              | Some err2 \<Rightarrow> Joined [External ''modify failed'', err2]),
      sampleVolume\<lparr>ManagedVolumes :=
        ManagedVolumes sampleVolume @ [createVolumeOutputToVolume (sampleOutput 50)]\<rparr>,
      ([] @ [Call_DescribeVolumes (InstanceId (Host sampleVolume)),
               Call_CreateVolume (sampleInput 50)])
       @ [Call_WaitVolumeAvailable ''vol-1'',
            Call_AttachVolume ''/dev/xvdba'' (InstanceId (Host sampleVolume)) ''vol-1'',
            Call_ModifyInstanceAttribute (InstanceId (Host sampleVolume)) ''/dev/xvdba'' ''vol-1'']
         @ [Call_DetachVolume ''vol-1'', Call_WaitVolumeAvailable ''vol-1'',
            Call_DeleteVolume ''vol-1''])"
    by (rule attachCreated_modify_fails)
       (simp_all add: sampleOutput_def modifyFailsEnv_def sampleEnv_def)
  moreover have "fst (removeVolume modifyFailsEnv ''vol-1'' []) = None"
    by (simp add: removeVolume_eq modifyFailsEnv_def sampleEnv_def errors_Join_def
          List.map_filter_def)
  moreover have "ManagedVolumes sampleVolume = []" "InstanceId (Host sampleVolume) = ''bob''"
    by (simp_all add: sampleVolume_def sampleHost_def)
  ultimately show ?thesis by simp
qed

subsection \<open>The pre-check and the capacity probe\<close>

lemma createAndAttach_precheck_fails:
  assumes "managedVolumeSizeGb v = Return volSize"
      and "sint (MaxLogicalSizeGb v) < sint volSize \<or>
           (of_nat (length (ManagedVolumes v)) :: int32) = MaxCreatedVolumes v"
  shows "\<exists>err. createAndAttachEbsVolume env v sizeGb tr = (Failed err, v, tr) \<and> CapacityExceeded err"
  using assms by (auto simp: createAndAttachEbsVolume_def)

lemma createAndAttach_probe_refuses:
  assumes "managedVolumeSizeGb v = Return volSize"
      and "\<not> sint (MaxLogicalSizeGb v) < sint volSize"
      and "(of_nat (length (ManagedVolumes v)) :: int32) \<noteq> MaxCreatedVolumes v"
      and "ec2_DescribeVolumes env (InstanceId (Host v)) = Inr volumes"
      and "sint (MaxAttachedVolumes v) < sint (of_nat (length volumes) :: int32)"
  shows "createAndAttachEbsVolume env v sizeGb tr =
           (Failed (MaxAttachedVolumesExceeded (MaxAttachedVolumes v) (length volumes)), v,
            tr @ [Call_DescribeVolumes (InstanceId (Host v))])"
  using assms by (simp add: createAndAttachEbsVolume_def instanceHasCapacity_def)

text \<open>
  Claim C6: before creating a volume the engine asks the provider for the volumes attached
  to the host (the describe call is filtered by the instance id alone, not by the identity
  tag). When the pre-check has passed and the number of volumes in the answer exceeds
  \<open>maxAttachedVolumes\<close>, the attempt fails with \<open>CapacityExceeded\<close>, the describe call is the
  only call issued and the state is unchanged. In every attempt that issues a create call,
  the describe call was issued first and answered with a number of volumes that does not
  exceed \<open>maxAttachedVolumes\<close>.
\<close>

theorem capacity_probe_before_create:
  "snd (instanceHasCapacity env v tr) = tr @ [Call_DescribeVolumes (InstanceId (Host v))] \<and>
   (managedVolumeSizeGb v = Return volSize \<and> \<not> sint (MaxLogicalSizeGb v) < sint volSize \<and>
    (of_nat (length (ManagedVolumes v)) :: int32) \<noteq> MaxCreatedVolumes v \<and>
    ec2_DescribeVolumes env (InstanceId (Host v)) = Inr volumes \<and>
    sint (MaxAttachedVolumes v) < sint (of_nat (length volumes) :: int32) \<longrightarrow>
      createAndAttachEbsVolume env v sizeGb tr =
        (Failed (MaxAttachedVolumesExceeded (MaxAttachedVolumes v) (length volumes)), v,
         tr @ [Call_DescribeVolumes (InstanceId (Host v))]) \<and>
      CapacityExceeded (MaxAttachedVolumesExceeded (MaxAttachedVolumes v) (length volumes))) \<and>
   (Call_CreateVolume input \<in> set (snd (snd (createAndAttachEbsVolume env v sizeGb []))) \<longrightarrow>
      (\<exists>attached rest.
          ec2_DescribeVolumes env (InstanceId (Host v)) = Inr attached \<and>
          \<not> sint (MaxAttachedVolumes v) < sint (of_nat (length attached) :: int32) \<and>
          snd (snd (createAndAttachEbsVolume env v sizeGb [])) =
            Call_DescribeVolumes (InstanceId (Host v)) # Call_CreateVolume input # rest))"
proof (intro conjI impI)
  show "snd (instanceHasCapacity env v tr) = tr @ [Call_DescribeVolumes (InstanceId (Host v))]"
    by (simp add: instanceHasCapacity_def Let_def split: sum.splits)
next
  assume "managedVolumeSizeGb v = Return volSize \<and> \<not> sint (MaxLogicalSizeGb v) < sint volSize \<and>
    (of_nat (length (ManagedVolumes v)) :: int32) \<noteq> MaxCreatedVolumes v \<and>
    ec2_DescribeVolumes env (InstanceId (Host v)) = Inr volumes \<and>
    sint (MaxAttachedVolumes v) < sint (of_nat (length volumes) :: int32)"
  then show "createAndAttachEbsVolume env v sizeGb tr =
        (Failed (MaxAttachedVolumesExceeded (MaxAttachedVolumes v) (length volumes)), v,
         tr @ [Call_DescribeVolumes (InstanceId (Host v))])"
    by (simp add: createAndAttach_probe_refuses)
next
  show "CapacityExceeded (MaxAttachedVolumesExceeded (MaxAttachedVolumes v) (length volumes))"
    by simp
next
  assume "Call_CreateVolume input \<in> set (snd (snd (createAndAttachEbsVolume env v sizeGb [])))"
  then show "\<exists>attached rest.
          ec2_DescribeVolumes env (InstanceId (Host v)) = Inr attached \<and>
          \<not> sint (MaxAttachedVolumes v) < sint (of_nat (length attached) :: int32) \<and>
          snd (snd (createAndAttachEbsVolume env v sizeGb [])) =
            Call_DescribeVolumes (InstanceId (Host v)) # Call_CreateVolume input # rest"
    by (rule createAndAttach_create_issued)
qed

theorem capacity_probe_before_create_witness:
  "createAndAttachEbsVolume fullHostEnv sampleVolume 50 [] =
     (Failed (MaxAttachedVolumesExceeded 16 17), sampleVolume, [Call_DescribeVolumes ''bob'']) \<and>
   (\<exists>rest. snd (snd (createAndAttachEbsVolume sampleEnv sampleVolume 50 [])) =
      Call_DescribeVolumes ''bob'' # Call_CreateVolume (sampleInput 50) # rest)"
proof -
  let ?attached = "replicate 17
        \<lparr>VolumeId = Some ''vol-x'', Size = Some (8 :: int32), State = ''in-use'', Tags = []\<rparr>"
  have "managedVolumeSizeGb sampleVolume = Return 0 \<and>
      \<not> sint (MaxLogicalSizeGb sampleVolume) < sint (0 :: int32) \<and>
      (of_nat (length (ManagedVolumes sampleVolume)) :: int32) \<noteq> MaxCreatedVolumes sampleVolume \<and>
      ec2_DescribeVolumes fullHostEnv (InstanceId (Host sampleVolume)) = Inr ?attached \<and>
      sint (MaxAttachedVolumes sampleVolume) < sint (of_nat (length ?attached) :: int32)"
    by (simp add: managedVolumeSizeGb_def sampleVolume_def fullHostEnv_def sampleEnv_def)
  then have "createAndAttachEbsVolume fullHostEnv sampleVolume 50 [] =
        (Failed (MaxAttachedVolumesExceeded (MaxAttachedVolumes sampleVolume) (length ?attached)),
         sampleVolume, [] @ [Call_DescribeVolumes (InstanceId (Host sampleVolume))])"
    using capacity_probe_before_create [of fullHostEnv sampleVolume "[]" 0 ?attached 50]
    by blast
  then have full: "createAndAttachEbsVolume fullHostEnv sampleVolume 50 [] =
     (Failed (MaxAttachedVolumesExceeded 16 17), sampleVolume, [Call_DescribeVolumes ''bob''])"
    by (simp add: sampleVolume_def sampleHost_def)
  have "createAndAttachEbsVolume sampleEnv
           (sampleVolume\<lparr>MaxCreatedVolumes := 3, ManagedVolumes := []\<rparr>) 50 [] =
     (Return ''/dev/xvdba'',
      sampleVolume\<lparr>MaxCreatedVolumes := 3,
        ManagedVolumes := [] @ [createVolumeOutputToVolume (sampleOutput 50)]\<rparr>,
      [Call_DescribeVolumes ''bob'', Call_CreateVolume (sampleInput 50),
       Call_WaitVolumeAvailable ''vol-1'', Call_AttachVolume ''/dev/xvdba'' ''bob'' ''vol-1'',
       Call_ModifyInstanceAttribute ''bob'' ''/dev/xvdba'' ''vol-1''])"
    by (rule sample_attempt [where s = 0]) simp_all
  then have "Call_CreateVolume (sampleInput 50)
      \<in> set (snd (snd (createAndAttachEbsVolume sampleEnv sampleVolume 50 [])))"
    by (simp add: sampleEnv_updates)
  then have "\<exists>attached rest.
          ec2_DescribeVolumes sampleEnv (InstanceId (Host sampleVolume)) = Inr attached \<and>
          \<not> sint (MaxAttachedVolumes sampleVolume) < sint (of_nat (length attached) :: int32) \<and>
          snd (snd (createAndAttachEbsVolume sampleEnv sampleVolume 50 [])) =
            Call_DescribeVolumes (InstanceId (Host sampleVolume))
              # Call_CreateVolume (sampleInput 50) # rest"
    using capacity_probe_before_create [of sampleEnv sampleVolume "[]" _ _ 50 "sampleInput 50"]
    by blast
  then have "\<exists>rest. snd (snd (createAndAttachEbsVolume sampleEnv sampleVolume 50 [])) =
      Call_DescribeVolumes ''bob'' # Call_CreateVolume (sampleInput 50) # rest"
    by (auto simp: sampleVolume_def sampleHost_def)
  with full show ?thesis by blast
qed

subsection \<open>The public operations\<close>

lemma sample_GrowVolume:
  assumes "calculateSizeIncreasePerVolume sampleEnv
             (sampleVolume\<lparr>MaxCreatedVolumes := mc, ManagedVolumes := mvs\<rparr>) = (inc, None)"
      and "sumSizes 0 mvs = Return s" and "sint s \<le> 200"
      and "(of_nat (length mvs) :: int32) \<noteq> mc"
  shows "GrowVolume sampleEnv (sampleVolume\<lparr>MaxCreatedVolumes := mc, ManagedVolumes := mvs\<rparr>) [] =
     (Return (),
      sampleVolume\<lparr>MaxCreatedVolumes := mc,
        ManagedVolumes := mvs @ [createVolumeOutputToVolume (sampleOutput inc)]\<rparr>,
      [Call_DescribeVolumes ''bob'', Call_CreateVolume (sampleInput inc),
       Call_WaitVolumeAvailable ''vol-1'', Call_AttachVolume ''/dev/xvdba'' ''bob'' ''vol-1'',
       Call_ModifyInstanceAttribute ''bob'' ''/dev/xvdba'' ''vol-1'',
       Call_GrowFileSystem ''/dev/xvdba''])"
  using assms(1) sample_attempt [OF assms(2-4), of inc]
  by (simp add: GrowVolume_def Let_def) (simp add: sampleEnv_def)

text \<open>
  Claim C2: \<^verbatim>\<open>GrowVolume\<close> fails with \<open>CapacityExceeded\<close>, issuing no call, when
  \<open>managedVolumeSizeGb() == maxLogicalSizeGb\<close> already or when
  \<open>len(ManagedVolumes) == maxCreatedVolumes\<close>. The only size guard of the source compares
  the current total with \<^verbatim>\<open>>\<close> and leaves out the size about to be added. With two
  volumes of 100 GB, a maximum of 200 GB (the "maximum, combined size" of the README) and
  five volumes allowed, the total equals the maximum, and the attempt passes the guard,
  creates and attaches a volume of 37 GB and grows the filesystem: 237 GB against 200.
\<close>

theorem GrowVolume_at_max_proceeds:
  "managedVolumeSizeGb atMaxVolume = Return (MaxLogicalSizeGb atMaxVolume) \<and>
   GrowVolume sampleEnv atMaxVolume [] =
     (Return (),
      atMaxVolume\<lparr>ManagedVolumes :=
        ManagedVolumes atMaxVolume @ [createVolumeOutputToVolume (sampleOutput 37)]\<rparr>,
      [Call_DescribeVolumes ''bob'', Call_CreateVolume (sampleInput 37),
       Call_WaitVolumeAvailable ''vol-1'', Call_AttachVolume ''/dev/xvdba'' ''bob'' ''vol-1'',
       Call_ModifyInstanceAttribute ''bob'' ''/dev/xvdba'' ''vol-1'',
       Call_GrowFileSystem ''/dev/xvdba''])"
proof -
  let ?mvs = "[taggedVolume ''vol-a'' 100, taggedVolume ''vol-b'' 100]"
  have sum: "sumSizes 0 ?mvs = Return 200"
    by (simp add: taggedVolume_def)
  have inc: "calculateSizeIncreasePerVolume sampleEnv
       (sampleVolume\<lparr>MaxCreatedVolumes := 5, ManagedVolumes := ?mvs\<rparr>) = (37, None)"
    by (simp add: calculateSizeIncreasePerVolume_def sampleVolume_def)
  have "GrowVolume sampleEnv (sampleVolume\<lparr>MaxCreatedVolumes := 5, ManagedVolumes := ?mvs\<rparr>) [] =
     (Return (),
      sampleVolume\<lparr>MaxCreatedVolumes := 5,
        ManagedVolumes := ?mvs @ [createVolumeOutputToVolume (sampleOutput 37)]\<rparr>,
      [Call_DescribeVolumes ''bob'', Call_CreateVolume (sampleInput 37),
       Call_WaitVolumeAvailable ''vol-1'', Call_AttachVolume ''/dev/xvdba'' ''bob'' ''vol-1'',
       Call_ModifyInstanceAttribute ''bob'' ''/dev/xvdba'' ''vol-1'',
       Call_GrowFileSystem ''/dev/xvdba''])"
    by (rule sample_GrowVolume [OF inc sum]) simp_all
  moreover have "managedVolumeSizeGb atMaxVolume = Return (MaxLogicalSizeGb atMaxVolume)"
    using sum by (simp add: managedVolumeSizeGb_def atMaxVolume_def sampleVolume_def)
  ultimately show ?thesis
    by (simp add: atMaxVolume_def)
qed

subsection \<open>The total size across an attempt\<close>

text \<open>
  Claim C4: the total of the recorded sizes stays within \<open>maxLogicalSizeGb\<close>; from any state
  with the total within it, \<^verbatim>\<open>CreateVolume\<close> and \<^verbatim>\<open>GrowVolume\<close> preserve this, a would-be
  violation aborting the attempt before any call. The guard of the source looks at the
  current total only: with one volume of 150 GB, a maximum of 200 GB and an increment of
  75 GB, the total is within the maximum before the attempt, the attempt issues its calls
  and succeeds, and the total is 225 GB afterwards.
\<close>

theorem GrowVolume_exceeds_max:
  "managedVolumeSizeGb largeFirstVolume = Return 150 \<and>
   MaxLogicalSizeGb largeFirstVolume = 200 \<and>
   fst (GrowVolume sampleEnv largeFirstVolume []) = Return () \<and>
   snd (snd (GrowVolume sampleEnv largeFirstVolume [])) =
     [Call_DescribeVolumes ''bob'', Call_CreateVolume (sampleInput 75),
      Call_WaitVolumeAvailable ''vol-1'', Call_AttachVolume ''/dev/xvdba'' ''bob'' ''vol-1'',
      Call_ModifyInstanceAttribute ''bob'' ''/dev/xvdba'' ''vol-1'',
      Call_GrowFileSystem ''/dev/xvdba''] \<and>
   managedVolumeSizeGb (fst (snd (GrowVolume sampleEnv largeFirstVolume []))) = Return 225 \<and>
   MaxLogicalSizeGb (fst (snd (GrowVolume sampleEnv largeFirstVolume []))) = 200"
proof -
  let ?mvs = "[taggedVolume ''vol-a'' 150]"
  have sum: "sumSizes 0 ?mvs = Return 150"
    by (simp add: taggedVolume_def)
  have inc: "calculateSizeIncreasePerVolume sampleEnv
       (sampleVolume\<lparr>MaxCreatedVolumes := 3, ManagedVolumes := ?mvs\<rparr>) = (75, None)"
    by (simp add: calculateSizeIncreasePerVolume_def sampleVolume_def)
  have v: "largeFirstVolume = sampleVolume\<lparr>MaxCreatedVolumes := 3, ManagedVolumes := ?mvs\<rparr>"
    by (simp add: largeFirstVolume_def sampleVolume_def)
  have "GrowVolume sampleEnv (sampleVolume\<lparr>MaxCreatedVolumes := 3, ManagedVolumes := ?mvs\<rparr>) [] =
     (Return (),
      sampleVolume\<lparr>MaxCreatedVolumes := 3,
        ManagedVolumes := ?mvs @ [createVolumeOutputToVolume (sampleOutput 75)]\<rparr>,
      [Call_DescribeVolumes ''bob'', Call_CreateVolume (sampleInput 75),
       Call_WaitVolumeAvailable ''vol-1'', Call_AttachVolume ''/dev/xvdba'' ''bob'' ''vol-1'',
       Call_ModifyInstanceAttribute ''bob'' ''/dev/xvdba'' ''vol-1'',
       Call_GrowFileSystem ''/dev/xvdba''])"
    by (rule sample_GrowVolume [OF inc sum]) simp_all
  then show ?thesis
    unfolding v
    by (simp add: managedVolumeSizeGb_def sampleVolume_def taggedVolume_def
          createVolumeOutputToVolume_def sampleOutput_def)
qed

end
